theory Spec2Isabelle
  imports Complex_Main
begin

section \<open>Lane consolidation and smoothing of project1.ipynb\<close>

text \<open>
  The notebook's own logic is the class \<open>HistoricalLaneDataTracker\<close>, the class
  \<open>LineProcessor\<close> and the function \<open>draw_lines\<close>. Objects are records, a method
  takes the object and returns the updated one, an exception is the \<open>Inl\<close> branch of a sum.

  Numbers: Python computes with floats here (\<open>math.sqrt\<close>, true division). The model
  reads the arithmetic of the source twice. The first reading, used for every function,
  is exact: a number is a \<open>real\<close> and every operation of the source is the operation
  of the same name on reals, with no rounding. The second reading, given for
  the functions that compute with floats under the names ending in \<open>_f64\<close>, is IEEE 754
  double precision: each operation is the exact one followed by rounding to the nearest
  double. Where the two readings give different results, the second is what Python
  returns.
\<close>

subsection \<open>Errors and built-ins\<close>

datatype py_error = StatisticsError | ZeroDivisionError | IndexError

text \<open>\<open>int(r)\<close> of a float: truncation towards zero.\<close>

definition py_int :: "real \<Rightarrow> int" where
  "py_int r = (if 0 \<le> r then \<lfloor>r\<rfloor> else \<lceil>r\<rceil>)"

text \<open>\<open>statistics.mean(data)\<close>: raises StatisticsError when \<open>len(data) < 1\<close>.\<close>

definition statistics_mean :: "real list \<Rightarrow> py_error + real" where
  "statistics_mean data =
     (if length data < 1 then Inl StatisticsError
      else Inr (sum_list data / real (length data)))"

text \<open>\<open>xs[i]\<close> on a sequence, for an index that is not negative.\<close>

definition index :: "'a list \<Rightarrow> nat \<Rightarrow> py_error + 'a" where
  "index xs i = (if i < length xs then Inr (xs ! i) else Inl IndexError)"

subsection \<open>HistoricalLaneDataTracker\<close>

record HistoricalLaneDataTracker =
  number_of_slopes_to_remember :: nat
  slopes :: "real list"
  mean_x_values :: "real list"
  mean_y_values :: "real list"

definition HistoricalLaneDataTracker_init :: HistoricalLaneDataTracker where
  "HistoricalLaneDataTracker_init =
     \<lparr>number_of_slopes_to_remember = 40, slopes = [], mean_x_values = [], mean_y_values = []\<rparr>"

text \<open>
  \<open>update\<close> appends to the three lists and then, when \<open>slopes\<close> is longer than the
  capacity, pops index 0 of each. Each list has just been appended to, so \<open>pop(0)\<close>
  never meets an empty list: it is \<open>tl\<close>.
\<close>

definition update ::
  "HistoricalLaneDataTracker \<Rightarrow> real \<Rightarrow> real \<Rightarrow> real \<Rightarrow> HistoricalLaneDataTracker" where
  "update self mean_x mean_y mean_slope =
     (let self1 = self\<lparr>mean_x_values := mean_x_values self @ [mean_x],
                        mean_y_values := mean_y_values self @ [mean_y],
                        slopes := slopes self @ [mean_slope]\<rparr>
      in if length (slopes self1) > number_of_slopes_to_remember self1
         then self1\<lparr>mean_x_values := tl (mean_x_values self1),
                    mean_y_values := tl (mean_y_values self1),
                    slopes := tl (slopes self1)\<rparr>
         else self1)"

definition get_latest_lane_data ::
  "HistoricalLaneDataTracker \<Rightarrow> py_error + (real \<times> real \<times> real)" where
  "get_latest_lane_data self =
     (case statistics_mean (mean_x_values self) of Inl e \<Rightarrow> Inl e | Inr x \<Rightarrow>
      case statistics_mean (mean_y_values self) of Inl e \<Rightarrow> Inl e | Inr y \<Rightarrow>
      case statistics_mean (slopes self) of Inl e \<Rightarrow> Inl e | Inr s \<Rightarrow>
      Inr (x, y, s))"

text \<open>A sequence of \<open>update\<close> calls, oldest first.\<close>

definition updates ::
  "HistoricalLaneDataTracker \<Rightarrow> (real \<times> real \<times> real) list \<Rightarrow> HistoricalLaneDataTracker" where
  "updates self ts = foldl (\<lambda>t (x, y, s). update t x y s) self ts"

subsection \<open>LineProcessor\<close>

record LineProcessor =
  sum_of_slopes :: real
  sum_of_coordinates :: "real \<times> real"
  total_length :: real
  lane_data_tracker :: HistoricalLaneDataTracker

definition LineProcessor_init :: "HistoricalLaneDataTracker \<Rightarrow> LineProcessor" where
  "LineProcessor_init tracker =
     \<lparr>sum_of_slopes = 0, sum_of_coordinates = (0, 0), total_length = 0,
      lane_data_tracker = tracker\<rparr>"

definition weighted_mid_point :: "real \<Rightarrow> real \<Rightarrow> real \<Rightarrow> real" where
  "weighted_mid_point a b weight = ((a + b) / 2) * weight"

text \<open>The local \<open>line_length\<close> of \<open>add_line\<close>.\<close>

definition line_length :: "real \<Rightarrow> real \<Rightarrow> real \<Rightarrow> real \<Rightarrow> real" where
  "line_length x1 y1 x2 y2 = sqrt ((y2 - y1)\<^sup>2 + (x2 - x1)\<^sup>2)"

definition add_line ::
  "LineProcessor \<Rightarrow> real \<Rightarrow> real \<Rightarrow> real \<Rightarrow> real \<Rightarrow> real \<Rightarrow> LineProcessor" where
  "add_line self x1 y1 x2 y2 slope =
     (let len = line_length x1 y1 x2 y2
      in self\<lparr>total_length := total_length self + len,
              sum_of_slopes := sum_of_slopes self + slope * len,
              sum_of_coordinates :=
                (fst (sum_of_coordinates self) + weighted_mid_point x1 x2 len,
                 snd (sum_of_coordinates self) + weighted_mid_point y1 y2 len)\<rparr>)"

text \<open>
  \<open>find_x2_from_slope\<close> divides by the slope with no guard. With Python floats a zero
  slope raises ZeroDivisionError; with numpy scalars the quotient is infinite or NaN and
  it is \<open>int\<close> that raises. Either way the call ends in an exception, which the model
  names ZeroDivisionError.
\<close>

definition find_x2_from_slope :: "real \<Rightarrow> real \<Rightarrow> real \<Rightarrow> real \<Rightarrow> py_error + int" where
  "find_x2_from_slope x1 y1 y2 current_slope =
     (if current_slope = 0 then Inl ZeroDivisionError
      else Inr (py_int (x1 - ((y1 - y2) / current_slope))))"

text \<open>
  \<open>get_mean_line\<close> mutates the tracker before it reads it, so the processor with the
  tracker as it stands is returned also when the call raises.
\<close>

definition get_mean_line ::
  "LineProcessor \<Rightarrow> int \<Rightarrow> int \<Rightarrow> LineProcessor \<times> (py_error + (int \<times> int \<times> int \<times> int))" where
  "get_mean_line self bottom_y top_y =
     (let self1 =
            (if total_length self \<noteq> 0
             then self\<lparr>lane_data_tracker :=
                         update (lane_data_tracker self)
                           (fst (sum_of_coordinates self) / total_length self)
                           (snd (sum_of_coordinates self) / total_length self)
                           (sum_of_slopes self / total_length self)\<rparr>
             else self)
      in case get_latest_lane_data (lane_data_tracker self1) of
           Inl e \<Rightarrow> (self1, Inl e)
         | Inr (latest_x, latest_y, latest_slope) \<Rightarrow>
      case find_x2_from_slope latest_x latest_y (real_of_int bottom_y) latest_slope of
           Inl e \<Rightarrow> (self1, Inl e)
         | Inr bottom_x \<Rightarrow>
      case find_x2_from_slope latest_x latest_y (real_of_int top_y) latest_slope of
           Inl e \<Rightarrow> (self1, Inl e)
         | Inr top_x \<Rightarrow> (self1, Inr (bottom_x, bottom_y, top_x, top_y)))"

text \<open>Several \<open>add_line\<close> calls in a row; a call is \<open>(x1, y1, x2, y2, slope)\<close>.\<close>

definition add_lines ::
  "LineProcessor \<Rightarrow> (real \<times> real \<times> real \<times> real \<times> real) list \<Rightarrow> LineProcessor" where
  "add_lines self calls = foldl (\<lambda>p (x1, y1, x2, y2, s). add_line p x1 y1 x2 y2 s) self calls"

subsection \<open>draw_lines\<close>

type_synonym segment = "real \<times> real \<times> real \<times> real"

definition slope :: "real \<Rightarrow> real \<Rightarrow> real \<Rightarrow> real \<Rightarrow> real" where
  "slope arg_x1 arg_y1 arg_x2 arg_y2 =
     (if 0 = arg_x2 - arg_x1 then 1
      else (arg_y2 - arg_y1) / (arg_x2 - arg_x1))"

text \<open>The body of the inner loop: the pair is (left processor, right processor).\<close>

definition draw_lines_body ::
  "LineProcessor \<times> LineProcessor \<Rightarrow> segment \<Rightarrow> LineProcessor \<times> LineProcessor" where
  "draw_lines_body ps seg =
     (case seg of (x1, y1, x2, y2) \<Rightarrow>
        let current_slope = slope x1 y1 x2 y2
        in if current_slope < 0
           then (add_line (fst ps) x1 y1 x2 y2 current_slope, snd ps)
           else (fst ps, add_line (snd ps) x1 y1 x2 y2 current_slope))"

text \<open>
  The two processors after the loops \<open>for line in lines: for x1,y1,x2,y2 in line\<close>,
  started on the two global trackers.
\<close>

definition line_processors ::
  "HistoricalLaneDataTracker \<times> HistoricalLaneDataTracker \<Rightarrow> segment list list \<Rightarrow>
   LineProcessor \<times> LineProcessor" where
  "line_processors globals lines =
     foldl (\<lambda>ps line. foldl draw_lines_body ps line)
       (LineProcessor_init (fst globals), LineProcessor_init (snd globals)) lines"

text \<open>\<open>int(area_of_interest[0][i][1])\<close>\<close>

definition area_y :: "(int \<times> int) list list \<Rightarrow> nat \<Rightarrow> py_error + int" where
  "area_y area_of_interest i =
     (case index area_of_interest 0 of Inl e \<Rightarrow> Inl e | Inr poly \<Rightarrow>
      case index poly i of Inl e \<Rightarrow> Inl e | Inr v \<Rightarrow> Inr (snd v))"

text \<open>
  \<open>draw_lines\<close> on the two global trackers (left, right). It returns the trackers as
  the call leaves them and either the exception or the two lines it draws.
\<close>

definition draw_lines ::
  "HistoricalLaneDataTracker \<times> HistoricalLaneDataTracker \<Rightarrow> segment list list \<Rightarrow>
   (int \<times> int) list list \<Rightarrow>
   (HistoricalLaneDataTracker \<times> HistoricalLaneDataTracker) \<times>
   (py_error + ((int \<times> int \<times> int \<times> int) \<times> (int \<times> int \<times> int \<times> int)))" where
  "draw_lines globals lines area_of_interest =
     (let ps = line_processors globals lines
      in case area_y area_of_interest 0 of Inl e \<Rightarrow> (globals, Inl e) | Inr bottom_left_y \<Rightarrow>
         case area_y area_of_interest 1 of Inl e \<Rightarrow> (globals, Inl e) | Inr top_left_y \<Rightarrow>
         let l = get_mean_line (fst ps) bottom_left_y top_left_y;
             globals1 = (lane_data_tracker (fst l), snd globals)
         in case snd l of Inl e \<Rightarrow> (globals1, Inl e) | Inr left_line \<Rightarrow>
         case area_y area_of_interest 3 of Inl e \<Rightarrow> (globals1, Inl e) | Inr bottom_right_y \<Rightarrow>
         case area_y area_of_interest 2 of Inl e \<Rightarrow> (globals1, Inl e) | Inr top_right_y \<Rightarrow>
         let r = get_mean_line (snd ps) bottom_right_y top_right_y;
             globals2 = (fst globals1, lane_data_tracker (fst r))
         in case snd r of Inl e \<Rightarrow> (globals2, Inl e)
            | Inr right_line \<Rightarrow> (globals2, Inr (left_line, right_line)))"

text \<open>
  The two global trackers are created empty when the module is loaded and only
  \<open>draw_lines\<close> changes them: the states they can be in.
\<close>

inductive reachable :: "HistoricalLaneDataTracker \<times> HistoricalLaneDataTracker \<Rightarrow> bool" where
  reachable_init:
    "reachable (HistoricalLaneDataTracker_init, HistoricalLaneDataTracker_init)"
| reachable_frame:
    "reachable globals \<Longrightarrow> reachable (fst (draw_lines globals lines area_of_interest))"


subsection \<open>The same code in double precision\<close>

text \<open>
  A Python float is an IEEE 754 binary64 number and every float operation returns the
  exact result rounded to the nearest such number, ties going to the even significand.
  \<open>binary64\<close> is that rounding on reals: 53 significant bits. The exponent is not
  bounded here, so overflow to infinity and subnormal numbers are not modelled; no value
  below comes near either.
\<close>

definition round_half_even :: "real \<Rightarrow> int" where
  "round_half_even x =
     (let n = \<lfloor>x\<rfloor>; d = x - of_int n
      in if d < 1 / 2 then n else if 1 / 2 < d then n + 1 else if even n then n else n + 1)"

definition binary64 :: "real \<Rightarrow> real" where
  "binary64 x =
     (if x = 0 then 0
      else let e = \<lfloor>log 2 \<bar>x\<bar>\<rfloor> - 52
           in of_int (round_half_even (x * 2 powi (- e))) * 2 powi e)"

text \<open>
  The segments come from \<open>cv2.HoughLinesP\<close> as integer pixel coordinates, so sums and
  differences of coordinates are exact and the first rounding is at the first division,
  \<open>math.pow\<close> or \<open>math.sqrt\<close>. \<open>math.pow(d, 2)\<close> is the square of \<open>d\<close> rounded,
  \<open>math.sqrt\<close> the square root rounded.
\<close>

definition slope_f64 :: "int \<Rightarrow> int \<Rightarrow> int \<Rightarrow> int \<Rightarrow> real" where
  "slope_f64 arg_x1 arg_y1 arg_x2 arg_y2 =
     (if 0 = arg_x2 - arg_x1 then 1
      else binary64 (real_of_int (arg_y2 - arg_y1) / real_of_int (arg_x2 - arg_x1)))"

definition line_length_f64 :: "int \<Rightarrow> int \<Rightarrow> int \<Rightarrow> int \<Rightarrow> real" where
  "line_length_f64 x1 y1 x2 y2 =
     binary64 (sqrt (binary64 (binary64 ((real_of_int (y2 - y1))\<^sup>2) +
                               binary64 ((real_of_int (x2 - x1))\<^sup>2))))"

definition weighted_mid_point_f64 :: "int \<Rightarrow> int \<Rightarrow> real \<Rightarrow> real" where
  "weighted_mid_point_f64 a b weight = binary64 (binary64 (real_of_int (a + b) / 2) * weight)"

definition add_line_f64 ::
  "LineProcessor \<Rightarrow> int \<Rightarrow> int \<Rightarrow> int \<Rightarrow> int \<Rightarrow> real \<Rightarrow> LineProcessor" where
  "add_line_f64 self x1 y1 x2 y2 slope' =
     (let len = line_length_f64 x1 y1 x2 y2
      in self\<lparr>total_length := binary64 (total_length self + len),
              sum_of_slopes := binary64 (sum_of_slopes self + binary64 (slope' * len)),
              sum_of_coordinates :=
                (binary64 (fst (sum_of_coordinates self) + weighted_mid_point_f64 x1 x2 len),
                 binary64 (snd (sum_of_coordinates self) + weighted_mid_point_f64 y1 y2 len))\<rparr>)"

text \<open>
  \<open>statistics.mean\<close> adds the data as exact fractions, divides, and converts the
  quotient to a float: one rounding.
\<close>

definition statistics_mean_f64 :: "real list \<Rightarrow> py_error + real" where
  "statistics_mean_f64 data =
     (if length data < 1 then Inl StatisticsError
      else Inr (binary64 (sum_list data / real (length data))))"

definition get_latest_lane_data_f64 ::
  "HistoricalLaneDataTracker \<Rightarrow> py_error + (real \<times> real \<times> real)" where
  "get_latest_lane_data_f64 self =
     (case statistics_mean_f64 (mean_x_values self) of Inl e \<Rightarrow> Inl e | Inr x \<Rightarrow>
      case statistics_mean_f64 (mean_y_values self) of Inl e \<Rightarrow> Inl e | Inr y \<Rightarrow>
      case statistics_mean_f64 (slopes self) of Inl e \<Rightarrow> Inl e | Inr s \<Rightarrow>
      Inr (x, y, s))"

definition find_x2_from_slope_f64 :: "real \<Rightarrow> real \<Rightarrow> int \<Rightarrow> real \<Rightarrow> py_error + int" where
  "find_x2_from_slope_f64 x1 y1 y2 current_slope =
     (if current_slope = 0 then Inl ZeroDivisionError
      else Inr (py_int (binary64 (x1 -
                  binary64 (binary64 (y1 - real_of_int y2) / current_slope)))))"

definition get_mean_line_f64 ::
  "LineProcessor \<Rightarrow> int \<Rightarrow> int \<Rightarrow> LineProcessor \<times> (py_error + (int \<times> int \<times> int \<times> int))" where
  "get_mean_line_f64 self bottom_y top_y =
     (let self1 =
            (if total_length self \<noteq> 0
             then self\<lparr>lane_data_tracker :=
                         update (lane_data_tracker self)
                           (binary64 (fst (sum_of_coordinates self) / total_length self))
                           (binary64 (snd (sum_of_coordinates self) / total_length self))
                           (binary64 (sum_of_slopes self / total_length self))\<rparr>
             else self)
      in case get_latest_lane_data_f64 (lane_data_tracker self1) of
           Inl e \<Rightarrow> (self1, Inl e)
         | Inr (latest_x, latest_y, latest_slope) \<Rightarrow>
      case find_x2_from_slope_f64 latest_x latest_y bottom_y latest_slope of
           Inl e \<Rightarrow> (self1, Inl e)
         | Inr bottom_x \<Rightarrow>
      case find_x2_from_slope_f64 latest_x latest_y top_y latest_slope of
           Inl e \<Rightarrow> (self1, Inl e)
         | Inr top_x \<Rightarrow> (self1, Inr (bottom_x, bottom_y, top_x, top_y)))"

subsection \<open>Vocabulary of the specification\<close>

text \<open>
  The specification speaks of a segment's Euclidean length, of its coordinate midpoints
  and of the slope it is added with. These follow its words; an \<open>add_line\<close> call is
  \<open>(x1, y1, x2, y2, slope)\<close>.
\<close>

definition seg_len :: "real \<times> real \<times> real \<times> real \<times> real \<Rightarrow> real" where
  "seg_len c = (case c of (x1, y1, x2, y2, s) \<Rightarrow> sqrt ((x2 - x1)\<^sup>2 + (y2 - y1)\<^sup>2))"

definition seg_midx :: "real \<times> real \<times> real \<times> real \<times> real \<Rightarrow> real" where
  "seg_midx c = (case c of (x1, y1, x2, y2, s) \<Rightarrow> (x1 + x2) / 2)"

definition seg_midy :: "real \<times> real \<times> real \<times> real \<times> real \<Rightarrow> real" where
  "seg_midy c = (case c of (x1, y1, x2, y2, s) \<Rightarrow> (y1 + y2) / 2)"

definition seg_slope :: "real \<times> real \<times> real \<times> real \<times> real \<Rightarrow> real" where
  "seg_slope c = (case c of (x1, y1, x2, y2, s) \<Rightarrow> s)"

text \<open>The length-weighted mean of a quantity \<open>f\<close> over the segments added.\<close>

definition weighted_mean ::
  "(real \<times> real \<times> real \<times> real \<times> real \<Rightarrow> real) \<Rightarrow>
   (real \<times> real \<times> real \<times> real \<times> real) list \<Rightarrow> real" where
  "weighted_mean f cs = (\<Sum>c\<leftarrow>cs. f c * seg_len c) / (\<Sum>c\<leftarrow>cs. seg_len c)"

text \<open>The unweighted arithmetic mean of a sequence.\<close>

definition arith_mean :: "real list \<Rightarrow> real" where
  "arith_mean xs = sum_list xs / real (length xs)"

text \<open>The last 40 entries of a sequence, in order.\<close>

definition window :: "'a list \<Rightarrow> 'a list" where
  "window xs = drop (length xs - 40) xs"

text \<open>
  What the loop of \<open>draw_lines\<close> keeps true of the left processor: it is untouched, or
  it has positive length and a negative sum of slopes.
\<close>

definition left_ok :: "LineProcessor \<Rightarrow> bool" where
  "left_ok p \<longleftrightarrow> (total_length p = 0 \<and> sum_of_slopes p = 0) \<or>
                 (0 < total_length p \<and> sum_of_slopes p < 0)"


section \<open>The history window\<close>

lemma updates_snoc: "updates t (ts @ [(x, y, s)]) = update (updates t ts) x y s"
  by (simp add: updates_def)

lemma tl_drop_snoc:
  assumes "k < length xs"
  shows "tl (drop k xs @ [a]) = drop (Suc k) (xs @ [a])"
proof -
  from assms have ne: "drop k xs \<noteq> []" by simp
  then have "tl (drop k xs @ [a]) = tl (drop k xs) @ [a]" by simp
  also have "tl (drop k xs) = drop (Suc k) xs" by (simp only: drop_Suc tl_drop)
  also from assms have "drop (Suc k) xs @ [a] = drop (Suc k) (xs @ [a])" by simp
  finally show ?thesis .
qed

lemma window_step:
  "(if length (drop (length xs - 40) xs @ [a]) > 40 then tl (drop (length xs - 40) xs @ [a])
    else drop (length xs - 40) xs @ [a]) =
   drop (Suc (length xs) - 40) (xs @ [a])"
proof (cases "length xs < 40")
  case True
  then show ?thesis by simp
next
  case False
  then have k: "length xs - 40 < length xs" and d: "Suc (length xs) - 40 = Suc (length xs - 40)"
    by simp_all
  from False have "length (drop (length xs - 40) xs @ [a]) > 40" by simp
  then show ?thesis
    unfolding d using tl_drop_snoc [OF k, of a] by (simp only: if_True)
qed

lemma update_window:
  assumes "number_of_slopes_to_remember t = 40"
    and "mean_x_values t = window xs" and "mean_y_values t = window ys"
    and "slopes t = window ss"
    and "length xs = length ss" and "length ys = length ss"
  shows "update t x y s =
         t\<lparr>mean_x_values := window (xs @ [x]), mean_y_values := window (ys @ [y]),
           slopes := window (ss @ [s])\<rparr>"
proof -
  have c: "(length (window ss @ [s]) > 40) = (length (window xs @ [x]) > 40)"
          "(length (window ss @ [s]) > 40) = (length (window ys @ [y]) > 40)"
    using assms(5,6) by (simp_all add: window_def)
  have w: "window (xs @ [x]) = (if length (window xs @ [x]) > 40 then tl (window xs @ [x]) else window xs @ [x])"
    "window (ys @ [y]) = (if length (window ys @ [y]) > 40 then tl (window ys @ [y]) else window ys @ [y])"
    "window (ss @ [s]) = (if length (window ss @ [s]) > 40 then tl (window ss @ [s]) else window ss @ [s])"
    unfolding window_def using window_step [of xs x] window_step [of ys y] window_step [of ss s]
    by simp_all
  show ?thesis
    unfolding w c [symmetric]
    by (simp add: update_def Let_def assms(1-4))
qed

lemma updates_init:
  "updates HistoricalLaneDataTracker_init ts =
     \<lparr>number_of_slopes_to_remember = 40,
      slopes = window (map (snd \<circ> snd) ts),
      mean_x_values = window (map fst ts),
      mean_y_values = window (map (fst \<circ> snd) ts)\<rparr>"
proof (induction ts rule: rev_induct)
  case Nil
  show ?case by (simp add: updates_def HistoricalLaneDataTracker_init_def window_def)
next
  case (snoc t ts)
  obtain x y s where t: "t = (x, y, s)" by (cases t) auto
  show ?case
    unfolding t updates_snoc snoc.IH
    by (subst update_window [where xs = "map fst ts" and ys = "map (fst \<circ> snd) ts"
          and ss = "map (snd \<circ> snd) ts"]) simp_all
qed

lemma length_window: "length (window xs) = min (length xs) 40"
  by (simp add: window_def)

lemma last_window_snoc: "last (window (xs @ [a])) = a"
  by (simp add: window_def)

lemma update_lists:
  "mean_x_values (update t x y s) =
     (if number_of_slopes_to_remember t < Suc (length (slopes t))
      then tl (mean_x_values t @ [x]) else mean_x_values t @ [x]) \<and>
   mean_y_values (update t x y s) =
     (if number_of_slopes_to_remember t < Suc (length (slopes t))
      then tl (mean_y_values t @ [y]) else mean_y_values t @ [y]) \<and>
   slopes (update t x y s) =
     (if number_of_slopes_to_remember t < Suc (length (slopes t))
      then tl (slopes t @ [s]) else slopes t @ [s])"
  by (simp add: update_def Let_def)

lemma update_updates_init:
  "update (updates HistoricalLaneDataTracker_init ts) x y s =
     \<lparr>number_of_slopes_to_remember = 40,
      slopes = window (map (snd \<circ> snd) ts @ [s]),
      mean_x_values = window (map fst ts @ [x]),
      mean_y_values = window (map (fst \<circ> snd) ts @ [y])\<rparr>"
  using updates_init [of "ts @ [(x, y, s)]"] by (simp add: updates_snoc)

section \<open>The accumulator\<close>

lemma add_lines_snoc:
  "add_lines p (cs @ [(x1, y1, x2, y2, s)]) = add_line (add_lines p cs) x1 y1 x2 y2 s"
  by (simp add: add_lines_def)

lemma line_length_seg_len: "line_length x1 y1 x2 y2 = seg_len (x1, y1, x2, y2, s)"
  by (simp add: line_length_def seg_len_def add.commute)

lemma add_lines_sums:
  "add_lines p cs =
     p\<lparr>total_length := total_length p + (\<Sum>c\<leftarrow>cs. seg_len c),
       sum_of_slopes := sum_of_slopes p + (\<Sum>c\<leftarrow>cs. seg_slope c * seg_len c),
       sum_of_coordinates :=
         (fst (sum_of_coordinates p) + (\<Sum>c\<leftarrow>cs. seg_midx c * seg_len c),
          snd (sum_of_coordinates p) + (\<Sum>c\<leftarrow>cs. seg_midy c * seg_len c))\<rparr>"
proof (induction cs rule: rev_induct)
  case Nil
  show ?case by (simp add: add_lines_def)
next
  case (snoc c cs)
  obtain x1 y1 x2 y2 s where c: "c = (x1, y1, x2, y2, s)" by (cases c) auto
  show ?case
    unfolding c add_lines_snoc snoc.IH
    by (simp add: add_line_def Let_def weighted_mid_point_def
        line_length_seg_len [of x1 y1 x2 y2 s] seg_slope_def seg_midx_def seg_midy_def)
qed

lemma seg_len_nonneg: "0 \<le> seg_len c"
  by (simp add: seg_len_def split: prod.splits)

lemma sum_seg_len_nonneg: "0 \<le> (\<Sum>c\<leftarrow>cs. seg_len c)"
  by (rule sum_list_nonneg) (auto simp: seg_len_nonneg)

lemma sum_seg_len_pos:
  assumes "cs \<noteq> []" and "\<forall>c\<in>set cs. 0 < seg_len c"
  shows "0 < (\<Sum>c\<leftarrow>cs. seg_len c)"
proof -
  from assms(1) obtain c cs' where cs: "cs = c # cs'" by (cases cs) auto
  have "0 \<le> (\<Sum>c\<leftarrow>cs'. seg_len c)" by (rule sum_seg_len_nonneg)
  moreover from assms(2) cs have "0 < seg_len c" by simp
  ultimately show ?thesis by (simp add: cs)
qed

lemma weighted_upper:
  assumes "\<forall>c\<in>set cs. seg_slope c \<le> M"
  shows "(\<Sum>c\<leftarrow>cs. seg_slope c * seg_len c) \<le> M * (\<Sum>c\<leftarrow>cs. seg_len c)"
proof -
  have "(\<Sum>c\<leftarrow>cs. seg_slope c * seg_len c) \<le> (\<Sum>c\<leftarrow>cs. M * seg_len c)"
    using assms by (intro sum_list_mono mult_right_mono) (auto simp: seg_len_nonneg)
  then show ?thesis by (simp add: sum_list_const_mult)
qed

lemma weighted_lower:
  assumes "\<forall>c\<in>set cs. m \<le> seg_slope c"
  shows "m * (\<Sum>c\<leftarrow>cs. seg_len c) \<le> (\<Sum>c\<leftarrow>cs. seg_slope c * seg_len c)"
proof -
  have "(\<Sum>c\<leftarrow>cs. m * seg_len c) \<le> (\<Sum>c\<leftarrow>cs. seg_slope c * seg_len c)"
    using assms by (intro sum_list_mono mult_right_mono) (auto simp: seg_len_nonneg)
  then show ?thesis by (simp add: sum_list_const_mult)
qed

lemma sqrt_25: "sqrt 25 = 5"
  using real_sqrt_abs [of 5] by simp

lemmas model_defs = get_mean_line_def add_line_def LineProcessor_init_def
  HistoricalLaneDataTracker_init_def update_def get_latest_lane_data_def statistics_mean_def
  find_x2_from_slope_def py_int_def slope_def line_length_def weighted_mid_point_def Let_def

section \<open>Reconstruction\<close>

lemma get_mean_line_tracker:
  "lane_data_tracker (fst (get_mean_line q bottom_y top_y)) =
     (if total_length q \<noteq> 0
      then update (lane_data_tracker q) (fst (sum_of_coordinates q) / total_length q)
             (snd (sum_of_coordinates q) / total_length q) (sum_of_slopes q / total_length q)
      else lane_data_tracker q)"
  by (simp add: get_mean_line_def Let_def split: sum.splits prod.splits)

lemma add_lines_init:
  "add_lines (LineProcessor_init tracker) cs =
     \<lparr>sum_of_slopes = (\<Sum>c\<leftarrow>cs. seg_slope c * seg_len c),
      sum_of_coordinates =
        ((\<Sum>c\<leftarrow>cs. seg_midx c * seg_len c), (\<Sum>c\<leftarrow>cs. seg_midy c * seg_len c)),
      total_length = (\<Sum>c\<leftarrow>cs. seg_len c),
      lane_data_tracker = tracker\<rparr>"
  by (simp add: add_lines_sums LineProcessor_init_def)

lemma get_mean_line_pushes:
  assumes "0 < (\<Sum>c\<leftarrow>cs. seg_len c)"
  shows "lane_data_tracker
           (fst (get_mean_line (add_lines (LineProcessor_init tracker) cs) bottom_y top_y)) =
         update tracker (weighted_mean seg_midx cs) (weighted_mean seg_midy cs)
           (weighted_mean seg_slope cs)"
  unfolding get_mean_line_tracker add_lines_init weighted_mean_def using assms by simp

lemma get_mean_line_no_segments:
  "total_length lp = 0 \<Longrightarrow>
   get_mean_line lp bottom_y top_y =
     (case get_latest_lane_data (lane_data_tracker lp) of
        Inl e \<Rightarrow> (lp, Inl e)
      | Inr (latest_x, latest_y, latest_slope) \<Rightarrow>
          (if latest_slope = 0 then (lp, Inl ZeroDivisionError)
           else (lp, Inr (py_int (latest_x - (latest_y - real_of_int bottom_y) / latest_slope),
                          bottom_y,
                          py_int (latest_x - (latest_y - real_of_int top_y) / latest_slope),
                          top_y))))"
  by (simp add: get_mean_line_def find_x2_from_slope_def split: sum.splits prod.splits)

section \<open>The left lane\<close>

lemma negative_slope_positive_length:
  assumes "slope x1 y1 x2 y2 < 0"
  shows "0 < line_length x1 y1 x2 y2"
proof -
  from assms have "x2 \<noteq> x1" by (auto simp: slope_def split: if_splits)
  then have "0 < (x2 - x1)\<^sup>2" by simp
  moreover have "0 \<le> (y2 - y1)\<^sup>2" by simp
  ultimately have "0 < (y2 - y1)\<^sup>2 + (x2 - x1)\<^sup>2" by linarith
  then show ?thesis by (simp add: line_length_def)
qed

lemma left_ok_add_line:
  assumes "left_ok p" and "s < 0" and "0 < line_length x1 y1 x2 y2"
  shows "left_ok (add_line p x1 y1 x2 y2 s)"
proof -
  from assms(2,3) have n: "s * line_length x1 y1 x2 y2 < 0"
    by (simp add: mult_neg_pos)
  from assms(1) have "0 \<le> total_length p" "sum_of_slopes p \<le> 0"
    by (auto simp: left_ok_def)
  with n assms(3) show ?thesis
    by (simp add: left_ok_def add_line_def Let_def)
qed

lemma left_ok_body:
  assumes "left_ok (fst ps)"
  shows "left_ok (fst (draw_lines_body ps seg)) \<and>
         lane_data_tracker (fst (draw_lines_body ps seg)) = lane_data_tracker (fst ps)"
proof -
  obtain x1 y1 x2 y2 where seg: "seg = (x1, y1, x2, y2)" by (cases seg) auto
  show ?thesis
  proof (cases "slope x1 y1 x2 y2 < 0")
    case True
    then have "left_ok (add_line (fst ps) x1 y1 x2 y2 (slope x1 y1 x2 y2))"
      using assms negative_slope_positive_length by (intro left_ok_add_line)
    with True show ?thesis
      by (simp add: seg draw_lines_body_def Let_def add_line_def)
  next
    case False
    with assms show ?thesis by (simp add: seg draw_lines_body_def Let_def)
  qed
qed

lemma left_ok_line:
  "left_ok (fst ps) \<Longrightarrow>
   left_ok (fst (foldl draw_lines_body ps line)) \<and>
   lane_data_tracker (fst (foldl draw_lines_body ps line)) = lane_data_tracker (fst ps)"
proof (induction line arbitrary: ps)
  case Nil
  then show ?case by simp
next
  case (Cons seg line)
  from left_ok_body [OF Cons.prems, of seg] Cons.IH [of "draw_lines_body ps seg"]
  show ?case by simp
qed

lemma left_ok_lines:
  "left_ok (fst ps) \<Longrightarrow>
   left_ok (fst (foldl (\<lambda>ps line. foldl draw_lines_body ps line) ps lines)) \<and>
   lane_data_tracker (fst (foldl (\<lambda>ps line. foldl draw_lines_body ps line) ps lines)) =
     lane_data_tracker (fst ps)"
proof (induction lines arbitrary: ps)
  case Nil
  then show ?case by simp
next
  case (Cons line lines)
  from left_ok_line [OF Cons.prems, of line] Cons.IH [of "foldl draw_lines_body ps line"]
  show ?case by simp
qed

lemma left_processor:
  "left_ok (fst (line_processors globals lines)) \<and>
   lane_data_tracker (fst (line_processors globals lines)) = fst globals"
proof -
  have "left_ok (fst (LineProcessor_init (fst globals), LineProcessor_init (snd globals)))"
    by (simp add: left_ok_def LineProcessor_init_def)
  from left_ok_lines [OF this, of lines] show ?thesis
    by (simp add: line_processors_def LineProcessor_init_def)
qed

lemma update_slopes_negative:
  assumes "\<forall>v\<in>set (slopes t). v < 0" and "s < 0"
  shows "\<forall>v\<in>set (slopes (update t x y s)). v < 0"
proof -
  have "set (slopes (update t x y s)) \<subseteq> set (slopes t @ [s])"
    by (auto simp: update_def Let_def dest: list.set_sel(2) [rotated])
  with assms show ?thesis by auto
qed

lemma left_tracker_after:
  assumes "left_ok p" and "\<forall>v\<in>set (slopes (lane_data_tracker p)). v < 0"
  shows "\<forall>v\<in>set (slopes (lane_data_tracker (fst (get_mean_line p bottom_y top_y)))). v < 0"
proof -
  note t = get_mean_line_tracker [of p bottom_y top_y]
  show ?thesis
  proof (cases "total_length p = 0")
    case True
    with assms(2) show ?thesis by (simp add: t)
  next
    case False
    with assms(1) have "0 < total_length p" "sum_of_slopes p < 0" by (auto simp: left_ok_def)
    then have "sum_of_slopes p / total_length p < 0" by (simp add: divide_neg_pos)
    from update_slopes_negative [OF assms(2) this] False show ?thesis by (simp add: t)
  qed
qed

lemma draw_lines_left_tracker:
  "fst (fst (draw_lines globals lines area_of_interest)) = fst globals \<or>
   (\<exists>b t. fst (fst (draw_lines globals lines area_of_interest)) =
      lane_data_tracker (fst (get_mean_line (fst (line_processors globals lines)) b t)))"
  by (auto simp: draw_lines_def Let_def split: sum.splits)

lemma reachable_left_negative:
  "reachable globals \<Longrightarrow> \<forall>v\<in>set (slopes (fst globals)). v < 0"
proof (induction rule: reachable.induct)
  case reachable_init
  show ?case by (simp add: HistoricalLaneDataTracker_init_def)
next
  case (reachable_frame globals lines area_of_interest)
  have "\<forall>v\<in>set (slopes (lane_data_tracker (fst (get_mean_line
            (fst (line_processors globals lines)) b t)))). v < 0" for b t
    using left_processor [of globals lines] reachable_frame.IH
    by (intro left_tracker_after) simp_all
  with draw_lines_left_tracker [of globals lines area_of_interest] reachable_frame.IH
  show ?case by auto
qed

lemma statistics_mean_negative:
  assumes "statistics_mean xs = Inr m" and "\<forall>v\<in>set xs. v < 0"
  shows "m < 0"
proof -
  from assms(1) have ne: "xs \<noteq> []" and m: "m = sum_list xs / real (length xs)"
    by (auto simp: statistics_mean_def split: if_splits)
  from ne obtain v vs where xs: "xs = v # vs" by (cases xs) auto
  have "sum_list vs \<le> 0" using assms(2) xs
    by (intro sum_list_nonpos) auto
  moreover have "v < 0" using assms(2) xs by simp
  ultimately have "sum_list xs < 0" by (simp add: xs)
  with ne show ?thesis by (simp add: m divide_neg_pos)
qed

section \<open>Evaluating double precision\<close>

lemma round_half_even_eval:
  assumes "of_int n - 1 / 2 < x" and "x < of_int n + 1 / 2"
  shows "round_half_even x = n"
proof -
  have "\<lfloor>x\<rfloor> = n \<or> \<lfloor>x\<rfloor> = n - 1" using assms by linarith
  then show ?thesis
  proof
    assume f: "\<lfloor>x\<rfloor> = n"
    then have "x - of_int n < 1 / 2" using assms by linarith
    with f show ?thesis by (simp add: round_half_even_def Let_def)
  next
    assume f: "\<lfloor>x\<rfloor> = n - 1"
    then have "1 / 2 < x - of_int (n - 1)" using assms by simp
    with f show ?thesis by (simp add: round_half_even_def Let_def)
  qed
qed

lemma round_half_even_tie:
  assumes "x = of_int n + 1 / 2" and "even n"
  shows "round_half_even x = n"
proof -
  have "\<lfloor>x\<rfloor> = n" using assms(1) by linarith
  moreover have "x - of_int n = 1 / 2" using assms(1) by simp
  ultimately show ?thesis using assms(2) by (simp add: round_half_even_def Let_def)
qed

lemma binary64_scaled:
  fixes k :: nat
  assumes "2 ^ 52 \<le> \<bar>x\<bar> * 2 ^ k" and "\<bar>x\<bar> * 2 ^ k < 2 ^ 53"
  shows "binary64 x = of_int (round_half_even (x * 2 ^ k)) / 2 ^ k"
proof -
  from assms(1) have nz: "x \<noteq> 0" by auto
  then have pos: "0 < \<bar>x\<bar>" by simp
  have p: "(2::real) powr real_of_int (52 - int k) = 2 ^ 52 / 2 ^ k"
    by (simp add: powr_diff powr_realpow)
  have q: "(2::real) powr (real_of_int (52 - int k) + 1) = 2 ^ 53 / 2 ^ k"
    by (simp add: powr_diff powr_add powr_realpow)
  have "2 powr real_of_int (52 - int k) \<le> \<bar>x\<bar> \<and> \<bar>x\<bar> < 2 powr (real_of_int (52 - int k) + 1)"
    unfolding p q using assms by (simp add: field_simps)
  then have "\<lfloor>log 2 \<bar>x\<bar>\<rfloor> = 52 - int k"
    using floor_log_eq_powr_iff [OF pos, of 2 "52 - int k"] by simp
  then have e: "\<lfloor>log 2 \<bar>x\<bar>\<rfloor> - 52 = - int k" by simp
  show ?thesis
    using nz by (simp add: binary64_def Let_def e power_int_minus field_simps)
qed

lemma binary64_eval:
  fixes k :: nat
  assumes "2 ^ 52 \<le> \<bar>x\<bar> * 2 ^ k" and "\<bar>x\<bar> * 2 ^ k < 2 ^ 53"
    and "of_int n - 1 / 2 < x * 2 ^ k" and "x * 2 ^ k < of_int n + 1 / 2"
  shows "binary64 x = of_int n / 2 ^ k"
  using binary64_scaled [OF assms(1,2)] round_half_even_eval [OF assms(3,4)] by simp

lemma binary64_tie:
  fixes k :: nat
  assumes "2 ^ 52 \<le> \<bar>x\<bar> * 2 ^ k" and "\<bar>x\<bar> * 2 ^ k < 2 ^ 53"
    and "x * 2 ^ k = of_int n + 1 / 2" and "even n"
  shows "binary64 x = of_int n / 2 ^ k"
  using binary64_scaled [OF assms(1,2)] round_half_even_tie [OF assms(3,4)] by simp

lemma binary64_exact:
  fixes k :: nat
  assumes "2 ^ 52 \<le> \<bar>n\<bar>" and "\<bar>n\<bar> < 2 ^ 53"
  shows "binary64 (real_of_int n / 2 ^ k) = real_of_int n / 2 ^ k"
proof -
  have a: "\<bar>real_of_int n / 2 ^ k\<bar> * 2 ^ k = real_of_int \<bar>n\<bar>" by (simp add: abs_divide)
  have "real_of_int (2 ^ 52) \<le> real_of_int \<bar>n\<bar>" "real_of_int \<bar>n\<bar> < real_of_int (2 ^ 53)"
    using assms by (simp_all only: of_int_le_iff of_int_less_iff)
  then have b: "(2::real) ^ 52 \<le> real_of_int \<bar>n\<bar>" "real_of_int \<bar>n\<bar> < 2 ^ 53"
    by simp_all
  show ?thesis
    by (rule binary64_eval) (simp_all only: a b, simp_all)
qed


subsection \<open>The segment (0, 100, 10, 90) in double precision\<close>

text \<open>
  The length is \<open>sqrt 200\<close> rounded, 14.142135623730951. The weighted midpoint y,
  \<open>95 * length\<close>, falls exactly between two doubles and is rounded down to the even
  one, so that dividing it by the length again gives 94.99999999999999 and not 95.
\<close>

lemma binary64_100: "binary64 100 = 100"
  by (rule binary64_eval [where k = 46 and n = "100 * 2 ^ 46", THEN trans]) simp_all
lemma binary64_200: "binary64 200 = 200"
  by (rule binary64_eval [where k = 45 and n = "200 * 2 ^ 45", THEN trans]) simp_all
lemma binary64_5: "binary64 5 = 5"
  by (rule binary64_eval [where k = 50 and n = "5 * 2 ^ 50", THEN trans]) simp_all
lemma binary64_95: "binary64 95 = 95"
  by (rule binary64_eval [where k = 46 and n = "95 * 2 ^ 46", THEN trans]) simp_all
lemma binary64_minus_1: "binary64 (- 1) = - 1"
  by (rule binary64_eval [where k = 52 and n = "- (2 ^ 52)", THEN trans]) simp_all

lemma sqrt_200_bounds:
  "(7961314590657216 - 1 / 2) / 2 ^ 49 < sqrt 200" "sqrt 200 < (7961314590657216 + 1 / 2) / 2 ^ 49"
proof -
  have "((7961314590657216 - 1 / 2) / 2 ^ 49)\<^sup>2 < (200::real)"
    by (simp add: power_divide)
  then show "(7961314590657216 - 1 / 2) / 2 ^ 49 < sqrt 200"
    by (rule real_less_rsqrt)
  have "(200::real) < ((7961314590657216 + 1 / 2) / 2 ^ 49)\<^sup>2"
    by (simp add: power_divide)
  moreover have "(0::real) \<le> (7961314590657216 + 1 / 2) / 2 ^ 49" by simp
  ultimately show "sqrt 200 < (7961314590657216 + 1 / 2) / 2 ^ 49"
    by (intro real_less_lsqrt) simp_all
qed

lemma binary64_sqrt_200: "binary64 (sqrt 200) = 124395540479019 / 2 ^ 43"
proof -
  have p: "0 \<le> sqrt 200" by simp
  have "binary64 (sqrt 200) = of_int 7961314590657216 / 2 ^ 49"
    using sqrt_200_bounds p
    by (intro binary64_eval) (simp_all add: abs_of_nonneg field_simps)
  then show ?thesis by simp
qed

lemma line_length_f64_scenario: "line_length_f64 0 100 10 90 = 124395540479019 / 2 ^ 43"
  by (simp add: line_length_f64_def binary64_100 binary64_200 binary64_sqrt_200)

lemma binary64_length: "binary64 (124395540479019 / 2 ^ 43) = 124395540479019 / 2 ^ 43"
  using binary64_exact [of "124395540479019 * 2 ^ 6" 49] by simp

lemma binary64_minus_length: "binary64 (- (124395540479019 / 2 ^ 43)) = - (124395540479019 / 2 ^ 43)"
  using binary64_exact [of "- (124395540479019 * 2 ^ 6)" 49] by simp

lemma binary64_95_length: "binary64 (11817576345506805 / 2 ^ 43) = 2954394086376701 / 2 ^ 41"
  by (rule binary64_tie [where k = 42 and n = "5908788172753402", THEN trans]) simp_all

lemma binary64_sum_x: "binary64 (621977702395095 / 2 ^ 43) = 621977702395095 / 2 ^ 43"
  using binary64_exact [of "621977702395095 * 2 ^ 3" 46] by simp

lemma binary64_sum_y: "binary64 (2954394086376701 / 2 ^ 41) = 2954394086376701 / 2 ^ 41"
  using binary64_exact [of "2954394086376701 * 2" 42] by simp

lemma slope_f64_scenario: "slope_f64 0 100 10 90 = - 1"
  by (simp add: slope_f64_def binary64_minus_1)

lemma add_line_f64_scenario:
  "add_line_f64 (LineProcessor_init HistoricalLaneDataTracker_init) 0 100 10 90
     (slope_f64 0 100 10 90) =
   \<lparr>sum_of_slopes = - (124395540479019 / 2 ^ 43),
    sum_of_coordinates = (621977702395095 / 2 ^ 43, 2954394086376701 / 2 ^ 41),
    total_length = 124395540479019 / 2 ^ 43,
    lane_data_tracker = HistoricalLaneDataTracker_init\<rparr>"
  unfolding slope_f64_scenario add_line_f64_def line_length_f64_scenario Let_def weighted_mid_point_f64_def LineProcessor_init_def
  by (simp add: binary64_5 binary64_95 binary64_length binary64_minus_length binary64_95_length
      binary64_sum_x binary64_sum_y del: power_numeral)

lemma binary64_mean_x: "binary64 ((621977702395095 / 2 ^ 43) / (124395540479019 / 2 ^ 43)) = 5"
  by (simp add: binary64_5)

lemma binary64_mean_y: "binary64 ((2954394086376701 / 2 ^ 41) / (124395540479019 / 2 ^ 43)) =
            6685030696878079 / 2 ^ 46"
  by (rule binary64_eval [where k = 46 and n = "6685030696878079", THEN trans]) simp_all

lemma binary64_mean_slope: "binary64 ((- (124395540479019 / 2 ^ 43)) / (124395540479019 / 2 ^ 43)) = - 1"
  by (simp add: binary64_minus_1)

lemma binary64_mean_y_exact: "binary64 (6685030696878079 / 2 ^ 46) = 6685030696878079 / 2 ^ 46"
  using binary64_exact [of "6685030696878079" 46] by simp

lemma get_latest_lane_data_f64_scenario:
  "get_latest_lane_data_f64 (update HistoricalLaneDataTracker_init 5 (6685030696878079 / 2 ^ 46) (- 1)) =
   Inr (5, 6685030696878079 / 2 ^ 46, - 1)"
  by (simp add: get_latest_lane_data_f64_def statistics_mean_f64_def update_def
      HistoricalLaneDataTracker_init_def Let_def binary64_5 binary64_mean_y_exact binary64_minus_1 del: power_numeral)

lemma scenario_dy_bottom: "binary64 (6685030696878079 / 2 ^ 46 - real_of_int 100) = - (351843720888321 / 2 ^ 46)"
  using binary64_exact [of "- (351843720888321 * 2 ^ 4)" 50] by simp

lemma scenario_dy_top: "binary64 (6685030696878079 / 2 ^ 46 - real_of_int 50) = 3166593487994879 / 2 ^ 46"
  using binary64_exact [of "3166593487994879 * 2" 47] by simp

lemma scenario_dx_bottom: "binary64 (- (351843720888321 / 2 ^ 46) / (- 1)) = 351843720888321 / 2 ^ 46"
  using binary64_exact [of "351843720888321 * 2 ^ 4" 50] by simp

lemma scenario_dx_top: "binary64 (3166593487994879 / 2 ^ 46 / (- 1)) = - (3166593487994879 / 2 ^ 46)"
  using binary64_exact [of "- (3166593487994879 * 2)" 47] by simp

lemma scenario_x_bottom: "binary64 (5 - 351843720888321 / 2 ^ 46) = - (1 / 2 ^ 46)"
  using binary64_exact [of "- (2 ^ 52)" 98] by simp

lemma scenario_x_top: "binary64 (5 - - (3166593487994879 / 2 ^ 46)) = 3518437208883199 / 2 ^ 46"
  using binary64_exact [of "3518437208883199 * 2" 47] by simp

lemma py_int_tiny: "py_int (- (1 / 2 ^ 46)) = 0"
proof -
  have "\<lceil>- (1 / 2 ^ 46) :: real\<rceil> = 0" by (rule ceiling_unique) simp_all
  then show ?thesis by (simp add: py_int_def)
qed

lemma py_int_top: "py_int (3518437208883199 / 2 ^ 46) = 49"
proof -
  have "\<lfloor>3518437208883199 / 2 ^ 46 :: real\<rfloor> = 49" by (rule floor_unique) simp_all
  then show ?thesis by (simp add: py_int_def)
qed

lemma find_x2_from_slope_f64_bottom:
  "find_x2_from_slope_f64 5 (6685030696878079 / 2 ^ 46) 100 (- 1) = Inr 0"
  unfolding find_x2_from_slope_f64_def scenario_dy_bottom scenario_dx_bottom scenario_x_bottom py_int_tiny
  by simp

lemma find_x2_from_slope_f64_top:
  "find_x2_from_slope_f64 5 (6685030696878079 / 2 ^ 46) 50 (- 1) = Inr 49"
  unfolding find_x2_from_slope_f64_def scenario_dy_top scenario_dx_top scenario_x_top py_int_top
  by simp

lemma get_mean_line_f64_pushing:
  assumes "total_length p \<noteq> 0"
    and "update (lane_data_tracker p)
           (binary64 (fst (sum_of_coordinates p) / total_length p))
           (binary64 (snd (sum_of_coordinates p) / total_length p))
           (binary64 (sum_of_slopes p / total_length p)) = t"
    and "get_latest_lane_data_f64 t = Inr (lx, ly, ls)"
    and "find_x2_from_slope_f64 lx ly bottom_y ls = Inr bottom_x"
    and "find_x2_from_slope_f64 lx ly top_y ls = Inr top_x"
  shows "get_mean_line_f64 p bottom_y top_y =
           (p\<lparr>lane_data_tracker := t\<rparr>, Inr (bottom_x, bottom_y, top_x, top_y))"
  using assms by (simp add: get_mean_line_f64_def Let_def)

lemma scenario_f64:
  "get_mean_line_f64
      (add_line_f64 (LineProcessor_init HistoricalLaneDataTracker_init) 0 100 10 90
         (slope_f64 0 100 10 90)) 100 50 =
   (\<lparr>sum_of_slopes = - (124395540479019 / 2 ^ 43),
     sum_of_coordinates = (621977702395095 / 2 ^ 43, 2954394086376701 / 2 ^ 41),
     total_length = 124395540479019 / 2 ^ 43,
     lane_data_tracker =
       update HistoricalLaneDataTracker_init 5 (6685030696878079 / 2 ^ 46) (- 1)\<rparr>,
    Inr (0, 100, 49, 50))"
proof -
  let ?p = "\<lparr>sum_of_slopes = - (124395540479019 / 2 ^ 43),
    sum_of_coordinates = (621977702395095 / 2 ^ 43, 2954394086376701 / 2 ^ 41),
    total_length = 124395540479019 / 2 ^ 43,
    lane_data_tracker = HistoricalLaneDataTracker_init\<rparr>"
  have nz: "total_length ?p \<noteq> 0" by simp
  have u: "update (lane_data_tracker ?p)
           (binary64 (fst (sum_of_coordinates ?p) / total_length ?p))
           (binary64 (snd (sum_of_coordinates ?p) / total_length ?p))
           (binary64 (sum_of_slopes ?p / total_length ?p)) =
        update HistoricalLaneDataTracker_init 5 (6685030696878079 / 2 ^ 46) (- 1)"
    by (simp only: LineProcessor.simps fst_conv snd_conv binary64_mean_x binary64_mean_y binary64_mean_slope)
  show ?thesis
    unfolding add_line_f64_scenario
    by (subst get_mean_line_f64_pushing [OF nz u get_latest_lane_data_f64_scenario find_x2_from_slope_f64_bottom find_x2_from_slope_f64_top]) simp
qed

lemma get_mean_line_f64_no_push:
  "total_length lp = 0 \<Longrightarrow>
   lane_data_tracker (fst (get_mean_line_f64 lp bottom_y top_y)) = lane_data_tracker lp"
  by (simp add: get_mean_line_f64_def Let_def split: sum.splits prod.splits)

lemma scenario_f64_history:
  "lane_data_tracker (fst (get_mean_line_f64
      (add_line_f64 (LineProcessor_init HistoricalLaneDataTracker_init) 0 100 10 90
         (slope_f64 0 100 10 90)) 100 50)) =
   \<lparr>number_of_slopes_to_remember = 40, slopes = [- 1], mean_x_values = [5],
    mean_y_values = [95 - 1 / 2 ^ 46]\<rparr>"
proof -
  have f: "(6685030696878079 / 2 ^ 46 :: real) = 95 - 1 / 2 ^ 46" by simp
  show ?thesis
    unfolding scenario_f64 f [symmetric]
    by (simp add: update_def HistoricalLaneDataTracker_init_def Let_def del: power_numeral)
qed

lemma scenario_exact_means:
  "weighted_mean seg_midx [(0, 100, 10, 90, - 1)] = 5 \<and>
   weighted_mean seg_midy [(0, 100, 10, 90, - 1)] = 95 \<and>
   weighted_mean seg_slope [(0, 100, 10, 90, - 1)] = - 1"
  by (simp add: weighted_mean_def seg_midx_def seg_midy_def seg_slope_def seg_len_def)

subsection \<open>The segment (0, 0, 1, 12) in double precision\<close>

text \<open>
  Here \<open>12 * length\<close> is again a tie that is rounded down, and the quotient by the
  length is 11.999999999999998.
\<close>

lemma binary64_144: "binary64 144 = 144"
  by (rule binary64_eval [where k = 45 and n = "144 * 2 ^ 45", THEN trans]) simp_all
lemma binary64_1: "binary64 1 = 1"
  by (rule binary64_eval [where k = 52 and n = "2 ^ 52", THEN trans]) simp_all
lemma binary64_12: "binary64 12 = 12"
  by (rule binary64_eval [where k = 49 and n = "12 * 2 ^ 49", THEN trans]) simp_all
lemma binary64_145: "binary64 145 = 145"
  by (rule binary64_eval [where k = 45 and n = "145 * 2 ^ 45", THEN trans]) simp_all

lemma sqrt_145_bounds:
  "(6778815107249446 - 1 / 2) / 2 ^ 49 < sqrt 145" "sqrt 145 < (6778815107249446 + 1 / 2) / 2 ^ 49"
proof -
  have "((6778815107249446 - 1 / 2) / 2 ^ 49)\<^sup>2 < (145::real)"
    by (simp add: power_divide)
  then show "(6778815107249446 - 1 / 2) / 2 ^ 49 < sqrt 145"
    by (rule real_less_rsqrt)
  have "(145::real) < ((6778815107249446 + 1 / 2) / 2 ^ 49)\<^sup>2"
    by (simp add: power_divide)
  moreover have "(0::real) \<le> (6778815107249446 + 1 / 2) / 2 ^ 49" by simp
  ultimately show "sqrt 145 < (6778815107249446 + 1 / 2) / 2 ^ 49"
    by (intro real_less_lsqrt) simp_all
qed

lemma binary64_sqrt_145: "binary64 (sqrt 145) = 3389407553624723 / 2 ^ 48"
proof -
  have p: "0 \<le> sqrt 145" by simp
  have "binary64 (sqrt 145) = of_int 6778815107249446 / 2 ^ 49"
    using sqrt_145_bounds p
    by (intro binary64_eval) (simp_all add: abs_of_nonneg field_simps)
  then show ?thesis by simp
qed

lemma line_length_f64_steep: "line_length_f64 0 0 1 12 = 3389407553624723 / 2 ^ 48"
  by (simp add: line_length_f64_def binary64_144 binary64_1 binary64_145 binary64_sqrt_145)

lemma slope_f64_steep: "slope_f64 0 0 1 12 = 12"
  by (simp add: slope_f64_def binary64_12)

lemma binary64_steep_length: "binary64 (3389407553624723 / 2 ^ 48) = 3389407553624723 / 2 ^ 48"
  using binary64_exact [of "3389407553624723 * 2" 49] by simp

lemma binary64_12_length: "binary64 (12 * (3389407553624723 / 2 ^ 48)) = 1271027832609271 / 2 ^ 43"
  by (rule binary64_tie [where k = 45 and n = "5084111330437084", THEN trans]) simp_all

lemma binary64_steep_sum: "binary64 (1271027832609271 / 2 ^ 43) = 1271027832609271 / 2 ^ 43"
  using binary64_exact [of "1271027832609271 * 2 ^ 2" 45] by simp

lemma binary64_steep_mean: "binary64 ((1271027832609271 / 2 ^ 43) / (3389407553624723 / 2 ^ 48)) =
             6755399441055743 / 2 ^ 49"
  by (rule binary64_eval [where k = 49 and n = "6755399441055743", THEN trans]) simp_all

lemma add_line_f64_steep_slopes:
  "sum_of_slopes (add_line_f64 (LineProcessor_init HistoricalLaneDataTracker_init) 0 0 1 12
     (slope_f64 0 0 1 12)) = 1271027832609271 / 2 ^ 43"
  unfolding slope_f64_steep add_line_f64_def line_length_f64_steep Let_def LineProcessor_init_def
  by (simp only: LineProcessor.simps add_0 binary64_12_length binary64_steep_sum)

lemma add_line_f64_steep_length:
  "total_length (add_line_f64 (LineProcessor_init HistoricalLaneDataTracker_init) 0 0 1 12
     (slope_f64 0 0 1 12)) = 3389407553624723 / 2 ^ 48"
  unfolding slope_f64_steep add_line_f64_def line_length_f64_steep Let_def LineProcessor_init_def
  by (simp only: LineProcessor.simps add_0 binary64_steep_length)

lemma mean_slope_f64_steep:
  "binary64 (sum_of_slopes (add_line_f64 (LineProcessor_init HistoricalLaneDataTracker_init)
                0 0 1 12 (slope_f64 0 0 1 12)) /
             total_length (add_line_f64 (LineProcessor_init HistoricalLaneDataTracker_init)
                0 0 1 12 (slope_f64 0 0 1 12))) = 6755399441055743 / 2 ^ 49"
  unfolding add_line_f64_steep_slopes add_line_f64_steep_length by (rule binary64_steep_mean)


section \<open>Claims\<close>

text \<open>
  C1, as stated, at the single segment (0, 100, 10, 90): the length-weighted mean of the
  midpoint y is 95, and the value Python pushes to the history is 94.99999999999999,
  that is 95 - 2^-46.
\<close>

theorem C1_rounding_counterexample:
  "weighted_mean seg_midy [(0, 100, 10, 90, - 1)] = 95 \<and>
   mean_y_values (lane_data_tracker (fst (get_mean_line_f64
      (add_line_f64 (LineProcessor_init HistoricalLaneDataTracker_init) 0 100 10 90
         (slope_f64 0 100 10 90)) 100 50))) = [95 - 1 / 2 ^ 46] \<and>
   (95 - 1 / 2 ^ 46 :: real) \<noteq> 95"
  using scenario_exact_means by (simp add: scenario_f64_history)

text \<open>
  C1 (amended). For every finite sequence of \<open>add_line\<close> calls on a fresh accumulator,
  \<open>total_length\<close> is the sum of the segments' Euclidean lengths, which is never
  negative. When it is positive, \<open>get_mean_line\<close> appends one entry to each of the three
  lists of the history, dropping the oldest entry when the list would exceed its
  capacity; taken in exact arithmetic the three values appended are the length-weighted
  means of the midpoint x, of the midpoint y and of the slope, and on a history built by
  pushes from the empty one they are its last entries. When \<open>total_length\<close> is zero
  nothing is pushed, in exact arithmetic and in double precision. In double precision,
  as Python computes, the values pushed can differ from the exact means by rounding: for
  the single segment (0, 100, 10, 90) on a fresh history the code pushes
  (5, 95 - 2^-46, -1), the exact means being (5, 95, -1).
\<close>

theorem C1_pushed_triple_is_weighted_mean:
  "total_length (add_lines (LineProcessor_init tracker) cs) = (\<Sum>c\<leftarrow>cs. seg_len c) \<and>
   0 \<le> (\<Sum>c\<leftarrow>cs. seg_len c) \<and>
   (0 < (\<Sum>c\<leftarrow>cs. seg_len c) \<longrightarrow>
      mean_x_values (lane_data_tracker
          (fst (get_mean_line (add_lines (LineProcessor_init tracker) cs) bottom_y top_y))) =
        (if number_of_slopes_to_remember tracker < Suc (length (slopes tracker))
         then tl (mean_x_values tracker @ [weighted_mean seg_midx cs])
         else mean_x_values tracker @ [weighted_mean seg_midx cs]) \<and>
      mean_y_values (lane_data_tracker
          (fst (get_mean_line (add_lines (LineProcessor_init tracker) cs) bottom_y top_y))) =
        (if number_of_slopes_to_remember tracker < Suc (length (slopes tracker))
         then tl (mean_y_values tracker @ [weighted_mean seg_midy cs])
         else mean_y_values tracker @ [weighted_mean seg_midy cs]) \<and>
      slopes (lane_data_tracker
          (fst (get_mean_line (add_lines (LineProcessor_init tracker) cs) bottom_y top_y))) =
        (if number_of_slopes_to_remember tracker < Suc (length (slopes tracker))
         then tl (slopes tracker @ [weighted_mean seg_slope cs])
         else slopes tracker @ [weighted_mean seg_slope cs])) \<and>
   (0 < (\<Sum>c\<leftarrow>cs. seg_len c) \<longrightarrow>
      mean_x_values (lane_data_tracker (fst (get_mean_line
          (add_lines (LineProcessor_init (updates HistoricalLaneDataTracker_init ts)) cs)
          bottom_y top_y))) = window (map fst ts @ [weighted_mean seg_midx cs]) \<and>
      mean_y_values (lane_data_tracker (fst (get_mean_line
          (add_lines (LineProcessor_init (updates HistoricalLaneDataTracker_init ts)) cs)
          bottom_y top_y))) = window (map (fst \<circ> snd) ts @ [weighted_mean seg_midy cs]) \<and>
      slopes (lane_data_tracker (fst (get_mean_line
          (add_lines (LineProcessor_init (updates HistoricalLaneDataTracker_init ts)) cs)
          bottom_y top_y))) = window (map (snd \<circ> snd) ts @ [weighted_mean seg_slope cs]) \<and>
      last (mean_x_values (lane_data_tracker (fst (get_mean_line
          (add_lines (LineProcessor_init (updates HistoricalLaneDataTracker_init ts)) cs)
          bottom_y top_y)))) = weighted_mean seg_midx cs \<and>
      last (mean_y_values (lane_data_tracker (fst (get_mean_line
          (add_lines (LineProcessor_init (updates HistoricalLaneDataTracker_init ts)) cs)
          bottom_y top_y)))) = weighted_mean seg_midy cs \<and>
      last (slopes (lane_data_tracker (fst (get_mean_line
          (add_lines (LineProcessor_init (updates HistoricalLaneDataTracker_init ts)) cs)
          bottom_y top_y)))) = weighted_mean seg_slope cs) \<and>
   ((\<Sum>c\<leftarrow>cs. seg_len c) = 0 \<longrightarrow>
      lane_data_tracker
        (fst (get_mean_line (add_lines (LineProcessor_init tracker) cs) bottom_y top_y)) =
        tracker) \<and>
   (total_length lp = 0 \<longrightarrow>
      lane_data_tracker (fst (get_mean_line_f64 lp bottom_y top_y)) = lane_data_tracker lp) \<and>
   lane_data_tracker (fst (get_mean_line_f64
      (add_line_f64 (LineProcessor_init HistoricalLaneDataTracker_init) 0 100 10 90
         (slope_f64 0 100 10 90)) 100 50)) =
     \<lparr>number_of_slopes_to_remember = 40, slopes = [- 1], mean_x_values = [5],
      mean_y_values = [95 - 1 / 2 ^ 46]\<rparr>"
proof -
  have a: "total_length (add_lines (LineProcessor_init tracker) cs) = (\<Sum>c\<leftarrow>cs. seg_len c)"
    by (simp add: add_lines_init)
  note b = sum_seg_len_nonneg [of cs]
  have c: "(\<Sum>c\<leftarrow>cs. seg_len c) = 0 \<Longrightarrow>
      lane_data_tracker
        (fst (get_mean_line (add_lines (LineProcessor_init tracker) cs) bottom_y top_y)) =
        tracker"
    unfolding get_mean_line_tracker add_lines_init by simp
  show ?thesis
    using a b c get_mean_line_f64_no_push [of lp bottom_y top_y] scenario_f64_history
    by (simp add: get_mean_line_pushes update_lists update_updates_init last_window_snoc)
qed

text \<open>
  Two segments of length 5 pushed onto a history of one entry, and one segment of
  length 0 on a fresh history.
\<close>

theorem C1_pushed_triple_is_weighted_mean_witness:
  "mean_x_values (lane_data_tracker (fst (get_mean_line
       (add_lines (LineProcessor_init (updates HistoricalLaneDataTracker_init [(1, 2, 3)]))
          [(0, 0, 3, 4, 4 / 3), (3, 4, 3, 9, 1)]) 10 0))) = [1, 9 / 4] \<and>
   mean_y_values (lane_data_tracker (fst (get_mean_line
       (add_lines (LineProcessor_init (updates HistoricalLaneDataTracker_init [(1, 2, 3)]))
          [(0, 0, 3, 4, 4 / 3), (3, 4, 3, 9, 1)]) 10 0))) = [2, 17 / 4] \<and>
   slopes (lane_data_tracker (fst (get_mean_line
       (add_lines (LineProcessor_init (updates HistoricalLaneDataTracker_init [(1, 2, 3)]))
          [(0, 0, 3, 4, 4 / 3), (3, 4, 3, 9, 1)]) 10 0))) = [3, 7 / 6] \<and>
   lane_data_tracker (fst (get_mean_line
       (add_lines (LineProcessor_init HistoricalLaneDataTracker_init) [(2, 7, 2, 7, 1)]) 10 0)) =
     HistoricalLaneDataTracker_init"
proof -
  have l: "(\<Sum>c\<leftarrow>[(0, 0, 3, 4, 4 / 3), (3, 4, 3, 9, 1)]. seg_len c) = 10"
    "(\<Sum>c\<leftarrow>[(2, 7, 2, 7, 1)]. seg_len c) = 0"
    by (simp_all add: seg_len_def sqrt_25)
  have m: "weighted_mean seg_midx [(0, 0, 3, 4, 4 / 3), (3, 4, 3, 9, 1)] = 9 / 4"
    "weighted_mean seg_midy [(0, 0, 3, 4, 4 / 3), (3, 4, 3, 9, 1)] = 17 / 4"
    "weighted_mean seg_slope [(0, 0, 3, 4, 4 / 3), (3, 4, 3, 9, 1)] = 7 / 6"
    by (simp_all add: weighted_mean_def seg_len_def seg_midx_def seg_midy_def seg_slope_def sqrt_25)
  have pos: "(0::real) < 10" by simp
  have p1: "mean_x_values (lane_data_tracker (fst (get_mean_line
       (add_lines (LineProcessor_init (updates HistoricalLaneDataTracker_init [(1, 2, 3)]))
          [(0, 0, 3, 4, 4 / 3), (3, 4, 3, 9, 1)]) 10 0))) = [1, 9 / 4] \<and>
     mean_y_values (lane_data_tracker (fst (get_mean_line
       (add_lines (LineProcessor_init (updates HistoricalLaneDataTracker_init [(1, 2, 3)]))
          [(0, 0, 3, 4, 4 / 3), (3, 4, 3, 9, 1)]) 10 0))) = [2, 17 / 4] \<and>
     slopes (lane_data_tracker (fst (get_mean_line
       (add_lines (LineProcessor_init (updates HistoricalLaneDataTracker_init [(1, 2, 3)]))
          [(0, 0, 3, 4, 4 / 3), (3, 4, 3, 9, 1)]) 10 0))) = [3, 7 / 6]"
    using C1_pushed_triple_is_weighted_mean [of "updates HistoricalLaneDataTracker_init [(1, 2, 3)]"
                 "[(0, 0, 3, 4, 4 / 3), (3, 4, 3, 9, 1)]" 10 0 "[(1, 2, 3)]", unfolded l m,
               THEN conjunct2, THEN conjunct2, THEN conjunct2, THEN conjunct1, THEN mp, OF pos]
    by (simp add: window_def)
  have p2: "lane_data_tracker (fst (get_mean_line
       (add_lines (LineProcessor_init HistoricalLaneDataTracker_init) [(2, 7, 2, 7, 1)]) 10 0)) =
     HistoricalLaneDataTracker_init"
    using C1_pushed_triple_is_weighted_mean [of HistoricalLaneDataTracker_init "[(2, 7, 2, 7, 1)]" 10 0, unfolded l,
               THEN conjunct2, THEN conjunct2, THEN conjunct2, THEN conjunct2, THEN conjunct1,
               THEN mp, OF refl]
    .
  show ?thesis
    using p1 p2 by blast
qed

text \<open>
  C2. For K triples, 1 \<le> K \<le> 40, pushed into an empty tracker,
  \<open>get_latest_lane_data\<close> returns the unweighted arithmetic mean of the K values of
  each of the three components.
\<close>

theorem C2_mean_of_pushed:
  assumes "1 \<le> length ts" and "length ts \<le> 40"
  shows "get_latest_lane_data (updates HistoricalLaneDataTracker_init ts) =
           Inr (arith_mean (map fst ts),
                arith_mean (map (fst \<circ> snd) ts),
                arith_mean (map (snd \<circ> snd) ts))"
proof -
  from assms(1) have ne: "ts \<noteq> []" by auto
  from assms(2) have w: "window (map f ts) = map f ts" for f :: "real \<times> real \<times> real \<Rightarrow> real"
    by (simp add: window_def)
  show ?thesis
    using ne
    by (simp add: updates_init w get_latest_lane_data_def statistics_mean_def arith_mean_def)
qed

theorem C2_mean_of_pushed_witness:
  "get_latest_lane_data
     (updates HistoricalLaneDataTracker_init [(1, 10, - 1), (2, 20, - 3), (6, 30, - 5)]) =
   Inr (3, 20, - 3)"
  using C2_mean_of_pushed [of "[(1, 10, - 1), (2, 20, - 3), (6, 30, - 5)]"]
  by (simp add: arith_mean_def)

text \<open>
  C3. Starting from the empty tracker, after any sequence of \<open>update\<close> calls each of
  the three lists holds at most 40 entries; after 45 calls each holds exactly 40, the
  values of the last 40 calls in the order of the calls (the first 5 are gone).
\<close>

theorem C3_history_window_bounded_fifo:
  "length (slopes (updates HistoricalLaneDataTracker_init ts)) \<le> 40 \<and>
   length (mean_x_values (updates HistoricalLaneDataTracker_init ts)) \<le> 40 \<and>
   length (mean_y_values (updates HistoricalLaneDataTracker_init ts)) \<le> 40 \<and>
   (length ts = 45 \<longrightarrow>
      length (slopes (updates HistoricalLaneDataTracker_init ts)) = 40 \<and>
      length (mean_x_values (updates HistoricalLaneDataTracker_init ts)) = 40 \<and>
      length (mean_y_values (updates HistoricalLaneDataTracker_init ts)) = 40 \<and>
      mean_x_values (updates HistoricalLaneDataTracker_init ts) = map fst (drop 5 ts) \<and>
      mean_y_values (updates HistoricalLaneDataTracker_init ts) = map (fst \<circ> snd) (drop 5 ts) \<and>
      slopes (updates HistoricalLaneDataTracker_init ts) = map (snd \<circ> snd) (drop 5 ts))"
  by (simp add: updates_init length_window window_def drop_map)

theorem C3_history_window_bounded_fifo_witness:
  "mean_x_values (updates HistoricalLaneDataTracker_init
      (map (\<lambda>i. (real i, 2 * real i, - real i)) [0..<45])) = map real [5..<45] \<and>
   slopes (updates HistoricalLaneDataTracker_init
      (map (\<lambda>i. (real i, 2 * real i, - real i)) [0..<45])) = map (\<lambda>i. - real i) [5..<45]"
  using C3_history_window_bounded_fifo [of "map (\<lambda>i. (real i, 2 * real i, - real i)) [0..<45]"]
  by (simp add: drop_map o_def)



text \<open>
  C5, as stated, at the segment (0, 100, 10, 90) with a fresh history and the bounds
  100 and 50: Python computes in double precision and returns top_x = 49, not 50.
\<close>

theorem C5_scenario_counterexample:
  "snd (get_mean_line_f64
          (add_line_f64 (LineProcessor_init HistoricalLaneDataTracker_init) 0 100 10 90
             (slope_f64 0 100 10 90)) 100 50) = Inr (0, 100, 49, 50) \<and>
   snd (get_mean_line_f64
          (add_line_f64 (LineProcessor_init HistoricalLaneDataTracker_init) 0 100 10 90
             (slope_f64 0 100 10 90)) 100 50) \<noteq> Inr (0, 100, 50, 50)"
  by (simp add: scenario_f64)

text \<open>
  C5 (amended). When the history read by \<open>get_mean_line\<close> (after its push, if any) has
  the mean \<open>(mean_x, mean_y, mean_slope)\<close> with \<open>mean_slope \<noteq> 0\<close>, the call returns
  \<open>(bottom_x, bottom_y, top_x, top_y)\<close> with
  \<open>bottom_x = int(mean_x - (mean_y - bottom_y) / mean_slope)\<close> and
  \<open>top_x = int(mean_x - (mean_y - top_y) / mean_slope)\<close>, in exact arithmetic and, with
  each operation rounded, in double precision. For the single left segment
  (0, 100, 10, 90), a fresh history and the bounds 100 and 50, exact arithmetic gives
  bottom_x = 0 and top_x = 50; in double precision the mean y is 94.99999999999999, the
  top x before truncation is 49.999999999999986, and the call returns bottom_x = 0 and
  top_x = 49.
\<close>

theorem C5_reconstructed_endpoints:
  "(get_latest_lane_data (lane_data_tracker (fst (get_mean_line lp bottom_y top_y))) =
      Inr (mean_x, mean_y, mean_slope) \<and> mean_slope \<noteq> 0 \<longrightarrow>
    snd (get_mean_line lp bottom_y top_y) =
      Inr (py_int (mean_x - (mean_y - real_of_int bottom_y) / mean_slope), bottom_y,
           py_int (mean_x - (mean_y - real_of_int top_y) / mean_slope), top_y)) \<and>
   (get_latest_lane_data_f64 (lane_data_tracker (fst (get_mean_line_f64 lp bottom_y top_y))) =
      Inr (mean_x, mean_y, mean_slope) \<and> mean_slope \<noteq> 0 \<longrightarrow>
    snd (get_mean_line_f64 lp bottom_y top_y) =
      Inr (py_int (binary64 (mean_x -
             binary64 (binary64 (mean_y - real_of_int bottom_y) / mean_slope))), bottom_y,
           py_int (binary64 (mean_x -
             binary64 (binary64 (mean_y - real_of_int top_y) / mean_slope))), top_y)) \<and>
   snd (get_mean_line
          (add_line (LineProcessor_init HistoricalLaneDataTracker_init) 0 100 10 90
             (slope 0 100 10 90)) 100 50) = Inr (0, 100, 50, 50) \<and>
   snd (get_mean_line_f64
          (add_line_f64 (LineProcessor_init HistoricalLaneDataTracker_init) 0 100 10 90
             (slope_f64 0 100 10 90)) 100 50) = Inr (0, 100, 49, 50)"
proof -
  have a: "snd (get_mean_line lp bottom_y top_y) =
      Inr (py_int (mean_x - (mean_y - real_of_int bottom_y) / mean_slope), bottom_y,
           py_int (mean_x - (mean_y - real_of_int top_y) / mean_slope), top_y)"
    if "get_latest_lane_data (lane_data_tracker (fst (get_mean_line lp bottom_y top_y))) =
          Inr (mean_x, mean_y, mean_slope)" and "mean_slope \<noteq> 0"
    using that unfolding get_mean_line_tracker
    by (simp add: get_mean_line_def find_x2_from_slope_def Let_def split: if_splits)
  have t: "lane_data_tracker (fst (get_mean_line_f64 lp bottom_y top_y)) =
     (if total_length lp \<noteq> 0
      then update (lane_data_tracker lp)
             (binary64 (fst (sum_of_coordinates lp) / total_length lp))
             (binary64 (snd (sum_of_coordinates lp) / total_length lp))
             (binary64 (sum_of_slopes lp / total_length lp))
      else lane_data_tracker lp)"
    by (simp add: get_mean_line_f64_def Let_def split: sum.splits prod.splits)
  have b: "snd (get_mean_line_f64 lp bottom_y top_y) =
      Inr (py_int (binary64 (mean_x -
             binary64 (binary64 (mean_y - real_of_int bottom_y) / mean_slope))), bottom_y,
           py_int (binary64 (mean_x -
             binary64 (binary64 (mean_y - real_of_int top_y) / mean_slope))), top_y)"
    if "get_latest_lane_data_f64 (lane_data_tracker (fst (get_mean_line_f64 lp bottom_y top_y))) =
          Inr (mean_x, mean_y, mean_slope)" and "mean_slope \<noteq> 0"
    using that unfolding t
    by (simp add: get_mean_line_f64_def find_x2_from_slope_f64_def Let_def split: if_splits)
  have c: "snd (get_mean_line
          (add_line (LineProcessor_init HistoricalLaneDataTracker_init) 0 100 10 90
             (slope 0 100 10 90)) 100 50) = Inr (0, 100, 50, 50)"
    by (simp add: model_defs)
  have d: "snd (get_mean_line_f64
          (add_line_f64 (LineProcessor_init HistoricalLaneDataTracker_init) 0 100 10 90
             (slope_f64 0 100 10 90)) 100 50) = Inr (0, 100, 49, 50)"
    by (simp add: scenario_f64)
  show ?thesis
    using a b c d by blast
qed

text \<open>
  A history of one entry, (901, 500, 1/2), read by a processor with no segments.
\<close>

theorem C5_reconstructed_endpoints_witness:
  "snd (get_mean_line
          (LineProcessor_init (update HistoricalLaneDataTracker_init 901 500 (1 / 2))) 539 325) =
   Inr (979, 539, 551, 325)"
proof -
  have h: "get_latest_lane_data (lane_data_tracker (fst (get_mean_line
          (LineProcessor_init (update HistoricalLaneDataTracker_init 901 500 (1 / 2))) 539 325))) =
        Inr (901, 500, 1 / 2)"
    unfolding get_mean_line_tracker
    by (simp add: LineProcessor_init_def update_def HistoricalLaneDataTracker_init_def
        get_latest_lane_data_def statistics_mean_def Let_def)
  have n: "(1 / 2 :: real) \<noteq> 0" by simp
  have v: "py_int (901 - (500 - real_of_int 539) / (1 / 2)) = 979"
    "py_int (901 - (500 - real_of_int 325) / (1 / 2)) = 551"
    by (simp_all add: py_int_def)
  from C5_reconstructed_endpoints
    [of "LineProcessor_init (update HistoricalLaneDataTracker_init 901 500 (1 / 2))"
      539 325 901 500 "1 / 2"] h n
  have "snd (get_mean_line
          (LineProcessor_init (update HistoricalLaneDataTracker_init 901 500 (1 / 2))) 539 325) =
      Inr (py_int (901 - (500 - real_of_int 539) / (1 / 2)), 539,
           py_int (901 - (500 - real_of_int 325) / (1 / 2)), 325)"
    by blast
  then show ?thesis unfolding v .
qed


text \<open>
  C6, as stated, on the history that one horizontal right-lane segment (0, 0, 10, 0)
  leaves behind, the single entry (5, 0, 0): a later frame with no segment for that lane
  finds one entry in the history and raises ZeroDivisionError.
\<close>

theorem C6_no_segments_counterexample:
  "total_length (LineProcessor_init (update HistoricalLaneDataTracker_init 5 0 0)) = 0 \<and>
   slopes (update HistoricalLaneDataTracker_init 5 0 0) = [0] \<and>
   lane_data_tracker (fst (get_mean_line
      (add_line (LineProcessor_init HistoricalLaneDataTracker_init) 0 0 10 0 (slope 0 0 10 0))
      539 325)) = update HistoricalLaneDataTracker_init 5 0 0 \<and>
   get_mean_line (LineProcessor_init (update HistoricalLaneDataTracker_init 5 0 0)) 539 325 =
     (LineProcessor_init (update HistoricalLaneDataTracker_init 5 0 0), Inl ZeroDivisionError)"
  by (simp add: model_defs)

text \<open>
  C6 (amended). For a lane that receives no segment in a frame (\<open>total_length = 0\<close>)
  while its history holds at least one entry and the mean of the history's slopes is not
  zero, \<open>get_mean_line\<close> leaves the history unchanged and returns the line
  reconstructed from the mean of the existing history.
\<close>

theorem C6_no_segments_falls_back_to_history:
  assumes "total_length lp = 0"
    and "mean_x_values (lane_data_tracker lp) \<noteq> []"
    and "mean_y_values (lane_data_tracker lp) \<noteq> []"
    and "slopes (lane_data_tracker lp) \<noteq> []"
    and "arith_mean (slopes (lane_data_tracker lp)) \<noteq> 0"
  shows "get_latest_lane_data (lane_data_tracker lp) =
           Inr (arith_mean (mean_x_values (lane_data_tracker lp)),
                arith_mean (mean_y_values (lane_data_tracker lp)),
                arith_mean (slopes (lane_data_tracker lp))) \<and>
         get_mean_line lp bottom_y top_y =
           (lp, Inr (py_int (arith_mean (mean_x_values (lane_data_tracker lp)) -
                             (arith_mean (mean_y_values (lane_data_tracker lp)) -
                              real_of_int bottom_y) /
                             arith_mean (slopes (lane_data_tracker lp))),
                     bottom_y,
                     py_int (arith_mean (mean_x_values (lane_data_tracker lp)) -
                             (arith_mean (mean_y_values (lane_data_tracker lp)) -
                              real_of_int top_y) /
                             arith_mean (slopes (lane_data_tracker lp))),
                     top_y))"
proof -
  have g: "get_latest_lane_data (lane_data_tracker lp) =
           Inr (arith_mean (mean_x_values (lane_data_tracker lp)),
                arith_mean (mean_y_values (lane_data_tracker lp)),
                arith_mean (slopes (lane_data_tracker lp)))"
    using assms(2-4) by (simp add: get_latest_lane_data_def statistics_mean_def arith_mean_def)
  show ?thesis
    using assms(5) by (simp add: get_mean_line_no_segments [OF assms(1)] g)
qed

text \<open>
  Five frames of history for the right lane, then a frame with no right segment.
\<close>

theorem C6_no_segments_falls_back_to_history_witness:
  "get_mean_line (LineProcessor_init (updates HistoricalLaneDataTracker_init
       [(900, 500, 1 / 2), (902, 502, 1 / 2), (901, 498, 3 / 4), (899, 500, 1 / 2), (903, 500, 1 / 4)]))
     539 325 =
   (LineProcessor_init (updates HistoricalLaneDataTracker_init
       [(900, 500, 1 / 2), (902, 502, 1 / 2), (901, 498, 3 / 4), (899, 500, 1 / 2), (903, 500, 1 / 4)]),
    Inr (979, 539, 551, 325))"
proof -
  have u: "updates HistoricalLaneDataTracker_init
       [(900, 500, 1 / 2), (902, 502, 1 / 2), (901, 498, 3 / 4), (899, 500, 1 / 2), (903, 500, 1 / 4)] =
     \<lparr>number_of_slopes_to_remember = 40, slopes = [1 / 2, 1 / 2, 3 / 4, 1 / 2, 1 / 4],
      mean_x_values = [900, 902, 901, 899, 903], mean_y_values = [500, 502, 498, 500, 500]\<rparr>"
    by (simp add: updates_def update_def HistoricalLaneDataTracker_init_def)
  show ?thesis
    unfolding u
    using C6_no_segments_falls_back_to_history
      [of "LineProcessor_init \<lparr>number_of_slopes_to_remember = 40,
             slopes = [1 / 2, 1 / 2, 3 / 4, 1 / 2, 1 / 4],
             mean_x_values = [900, 902, 901, 899, 903],
             mean_y_values = [500, 502, 498, 500, 500]\<rparr>" 539 325]
    by (simp add: LineProcessor_init_def py_int_def arith_mean_def)
qed

text \<open>
  C7, as stated, on the first frame of a session when it has no segment: the
  StatisticsError of the empty history is not handled anywhere, \<open>draw_lines\<close> ends
  with it and draws nothing.
\<close>

theorem C7_empty_history_counterexample:
  "draw_lines (HistoricalLaneDataTracker_init, HistoricalLaneDataTracker_init) []
     [[(50, 539), (440, 325), (510, 325), (910, 539)]] =
   ((HistoricalLaneDataTracker_init, HistoricalLaneDataTracker_init), Inl StatisticsError)"
  by (simp add: draw_lines_def line_processors_def area_y_def index_def model_defs)

text \<open>
  C7 (amended). \<open>get_latest_lane_data\<close> on a history with no entries raises
  StatisticsError: the condition reaches the caller as an exception and no default value
  is returned. \<open>get_mean_line\<close> of a lane with no segments and an empty history ends
  with the same exception and leaves the processor and its history as they were. No
  function of the notebook handles it: whatever exception \<open>get_mean_line\<close> raises for
  the left or for the right lane, \<open>draw_lines\<close> ends with it and draws nothing; when
  it is the left lane that has no segments and no history, the two global trackers are
  left as they were.
\<close>

theorem C7_empty_history_raises:
  "(mean_x_values t = [] \<or> mean_y_values t = [] \<or> slopes t = [] \<longrightarrow>
      get_latest_lane_data t = Inl StatisticsError) \<and>
   (total_length lp = 0 \<and>
    (mean_x_values (lane_data_tracker lp) = [] \<or> mean_y_values (lane_data_tracker lp) = [] \<or>
     slopes (lane_data_tracker lp) = []) \<longrightarrow>
      get_mean_line lp bottom_y top_y = (lp, Inl StatisticsError)) \<and>
   (area_y area_of_interest 0 = Inr bottom_left_y \<and> area_y area_of_interest 1 = Inr top_left_y \<and>
    snd (get_mean_line (fst (line_processors globals lines)) bottom_left_y top_left_y) = Inl e \<longrightarrow>
      snd (draw_lines globals lines area_of_interest) = Inl e) \<and>
   (area_y area_of_interest 0 = Inr bottom_left_y \<and> area_y area_of_interest 1 = Inr top_left_y \<and>
    area_y area_of_interest 3 = Inr bottom_right_y \<and> area_y area_of_interest 2 = Inr top_right_y \<and>
    snd (get_mean_line (fst (line_processors globals lines)) bottom_left_y top_left_y) =
      Inr left_line \<and>
    snd (get_mean_line (snd (line_processors globals lines)) bottom_right_y top_right_y) = Inl e \<longrightarrow>
      snd (draw_lines globals lines area_of_interest) = Inl e) \<and>
   (area_y area_of_interest 0 = Inr bottom_left_y \<and> area_y area_of_interest 1 = Inr top_left_y \<and>
    total_length (fst (line_processors globals lines)) = 0 \<and>
    (mean_x_values (fst globals) = [] \<or> mean_y_values (fst globals) = [] \<or>
     slopes (fst globals) = []) \<longrightarrow>
      draw_lines globals lines area_of_interest = (globals, Inl StatisticsError))"
proof -
  have a: "get_latest_lane_data t = Inl StatisticsError"
    if "mean_x_values t = [] \<or> mean_y_values t = [] \<or> slopes t = []" for t
    using that by (auto simp: get_latest_lane_data_def statistics_mean_def split: sum.splits)
  have b: "get_mean_line lp bottom_y top_y = (lp, Inl StatisticsError)"
    if "total_length lp = 0" and "mean_x_values (lane_data_tracker lp) = [] \<or>
      mean_y_values (lane_data_tracker lp) = [] \<or> slopes (lane_data_tracker lp) = []"
    for lp bottom_y top_y
    using that by (simp add: get_mean_line_no_segments a)
  have l: "snd (draw_lines globals lines area_of_interest) = Inl e"
    if "area_y area_of_interest 0 = Inr bottom_left_y" "area_y area_of_interest 1 = Inr top_left_y"
      "snd (get_mean_line (fst (line_processors globals lines)) bottom_left_y top_left_y) = Inl e"
    using that by (simp add: draw_lines_def Let_def)
  have r: "snd (draw_lines globals lines area_of_interest) = Inl e"
    if "area_y area_of_interest 0 = Inr bottom_left_y" "area_y area_of_interest 1 = Inr top_left_y"
      "area_y area_of_interest 3 = Inr bottom_right_y" "area_y area_of_interest 2 = Inr top_right_y"
      "snd (get_mean_line (fst (line_processors globals lines)) bottom_left_y top_left_y) =
         Inr left_line"
      "snd (get_mean_line (snd (line_processors globals lines)) bottom_right_y top_right_y) = Inl e"
    using that by (simp add: draw_lines_def Let_def)
  have tr: "lane_data_tracker (fst (line_processors globals lines)) = fst globals"
    using left_processor [of globals lines] by simp
  have c: "draw_lines globals lines area_of_interest = (globals, Inl StatisticsError)"
    if "area_y area_of_interest 0 = Inr bottom_left_y" "area_y area_of_interest 1 = Inr top_left_y"
      "total_length (fst (line_processors globals lines)) = 0"
      "mean_x_values (fst globals) = [] \<or> mean_y_values (fst globals) = [] \<or>
       slopes (fst globals) = []"
  proof -
    have "get_mean_line (fst (line_processors globals lines)) bottom_left_y top_left_y =
          (fst (line_processors globals lines), Inl StatisticsError)"
      using that(3,4) by (intro b) (simp_all add: tr)
    then show ?thesis
      using that(1,2) by (simp add: draw_lines_def Let_def tr)
  qed
  show ?thesis using a b l r c by blast
qed

text \<open>
  The first frame of a session with one right segment and no left segment; and a first
  frame with one left segment and no right segment, where it is the right lane that
  raises.
\<close>

theorem C7_empty_history_raises_witness:
  "get_latest_lane_data HistoricalLaneDataTracker_init = Inl StatisticsError \<and>
   get_mean_line (LineProcessor_init HistoricalLaneDataTracker_init) 539 325 =
     (LineProcessor_init HistoricalLaneDataTracker_init, Inl StatisticsError) \<and>
   draw_lines (HistoricalLaneDataTracker_init, HistoricalLaneDataTracker_init)
     [[(100, 100, 110, 110)]] [[(50, 539), (440, 325), (510, 325), (910, 539)]] =
   ((HistoricalLaneDataTracker_init, HistoricalLaneDataTracker_init), Inl StatisticsError) \<and>
   snd (draw_lines (HistoricalLaneDataTracker_init, HistoricalLaneDataTracker_init)
     [[(0, 100, 10, 90)]] [[(50, 539), (440, 325), (510, 325), (910, 539)]]) =
   Inl StatisticsError"
proof -
  let ?g = "(HistoricalLaneDataTracker_init, HistoricalLaneDataTracker_init)"
  let ?a = "[[(50, 539), (440, 325), (510, 325), (910, 539)]] :: (int \<times> int) list list"
  have p: "total_length (fst (line_processors ?g [[(100, 100, 110, 110)]])) = 0"
    by (simp add: line_processors_def draw_lines_body_def slope_def LineProcessor_init_def)
  have y: "area_y ?a 0 = Inr 539" "area_y ?a 1 = Inr 325" "area_y ?a 3 = Inr 539"
    "area_y ?a 2 = Inr 325"
    by (simp_all add: area_y_def index_def)
  have e: "mean_x_values HistoricalLaneDataTracker_init = []"
    by (simp add: HistoricalLaneDataTracker_init_def)
  have z: "total_length (LineProcessor_init HistoricalLaneDataTracker_init) = 0"
    "lane_data_tracker (LineProcessor_init HistoricalLaneDataTracker_init) =
       HistoricalLaneDataTracker_init"
    by (simp_all add: LineProcessor_init_def)
  have ll: "snd (get_mean_line (fst (line_processors ?g [[(0, 100, 10, 90)]])) 539 325) =
            Inr (- 439, 539, - 225, 325)"
    by (simp add: line_processors_def draw_lines_body_def model_defs)
  have rr: "snd (get_mean_line (snd (line_processors ?g [[(0, 100, 10, 90)]])) 539 325) =
            Inl StatisticsError"
    by (simp add: line_processors_def draw_lines_body_def model_defs)
  have first: "get_latest_lane_data HistoricalLaneDataTracker_init = Inl StatisticsError \<and>
     get_mean_line (LineProcessor_init HistoricalLaneDataTracker_init) 539 325 =
       (LineProcessor_init HistoricalLaneDataTracker_init, Inl StatisticsError) \<and>
     draw_lines ?g [[(100, 100, 110, 110)]] ?a = (?g, Inl StatisticsError)"
    using C7_empty_history_raises [of HistoricalLaneDataTracker_init
        "LineProcessor_init HistoricalLaneDataTracker_init" 539 325 ?a 539 325 ?g
        "[[(100, 100, 110, 110)]]"] p y e z
    by simp
  have second: "snd (draw_lines ?g [[(0, 100, 10, 90)]] ?a) = Inl StatisticsError"
    using C7_empty_history_raises [of _ _ _ _ ?a 539 325 ?g "[[(0, 100, 10, 90)]]"
        StatisticsError 539 325 "(- 439, 539, - 225, 325)"] y ll rr
    by blast
  show ?thesis using first second by simp
qed

text \<open>
  C8, as stated, at the single segment (0, 0, 1, 12): its slope is 12, so the least and
  the greatest slope are both 12, and Python's \<open>sum_of_slopes / total_length\<close> is
  11.999999999999998.
\<close>

theorem C8_rounding_counterexample:
  "slope_f64 0 0 1 12 = 12 \<and> 0 < line_length_f64 0 0 1 12 \<and>
   binary64 (sum_of_slopes (add_line_f64 (LineProcessor_init HistoricalLaneDataTracker_init)
                0 0 1 12 (slope_f64 0 0 1 12)) /
             total_length (add_line_f64 (LineProcessor_init HistoricalLaneDataTracker_init)
                0 0 1 12 (slope_f64 0 0 1 12))) < 12"
  using mean_slope_f64_steep slope_f64_steep line_length_f64_steep by simp

text \<open>
  C8 (amended). For a non-empty sequence of \<open>add_line\<close> calls whose segments all have
  positive length, the quotient \<open>sum_of_slopes / total_length\<close> taken in exact arithmetic
  lies between the least and the greatest of the slopes added. Taken in double
  precision, as Python does, it can leave that interval by a rounding error: for the
  single segment (0, 0, 1, 12) of slope 12 it is 12 - 2^-49.
\<close>

theorem C8_weighted_mean_slope_bounds:
  assumes "cs \<noteq> []" and "\<forall>c\<in>set cs. 0 < seg_len c"
  shows "Min (seg_slope ` set cs)
           \<le> sum_of_slopes (add_lines (LineProcessor_init tracker) cs) /
             total_length (add_lines (LineProcessor_init tracker) cs) \<and>
         sum_of_slopes (add_lines (LineProcessor_init tracker) cs) /
             total_length (add_lines (LineProcessor_init tracker) cs)
           \<le> Max (seg_slope ` set cs) \<and>
         binary64 (sum_of_slopes (add_line_f64 (LineProcessor_init HistoricalLaneDataTracker_init)
                      0 0 1 12 (slope_f64 0 0 1 12)) /
                   total_length (add_line_f64 (LineProcessor_init HistoricalLaneDataTracker_init)
                      0 0 1 12 (slope_f64 0 0 1 12))) = 12 - 1 / 2 ^ 49"
proof -
  let ?L = "\<Sum>c\<leftarrow>cs. seg_len c"
  let ?S = "\<Sum>c\<leftarrow>cs. seg_slope c * seg_len c"
  have L: "0 < ?L" using assms by (rule sum_seg_len_pos)
  have fin: "finite (seg_slope ` set cs)" and ne: "seg_slope ` set cs \<noteq> {}"
    using assms(1) by simp_all
  have "\<forall>c\<in>set cs. seg_slope c \<le> Max (seg_slope ` set cs)"
    using fin by (auto intro: Max_ge)
  then have up: "?S \<le> Max (seg_slope ` set cs) * ?L" by (rule weighted_upper)
  have "\<forall>c\<in>set cs. Min (seg_slope ` set cs) \<le> seg_slope c"
    using fin by (auto intro: Min_le)
  then have lo: "Min (seg_slope ` set cs) * ?L \<le> ?S" by (rule weighted_lower)
  have eqs: "sum_of_slopes (add_lines (LineProcessor_init tracker) cs) = ?S"
    "total_length (add_lines (LineProcessor_init tracker) cs) = ?L"
    by (simp_all add: add_lines_sums LineProcessor_init_def)
  have f: "(6755399441055743 / 2 ^ 49 :: real) = 12 - 1 / 2 ^ 49" by simp
  show ?thesis
    unfolding eqs mean_slope_f64_steep f
    using L up lo by (simp add: pos_le_divide_eq pos_divide_le_eq)
qed

theorem C8_weighted_mean_slope_bounds_witness:
  "(1::real) \<le> sum_of_slopes (add_lines (LineProcessor_init HistoricalLaneDataTracker_init)
                [(0, 0, 3, 4, 4 / 3), (3, 4, 3, 9, 1)]) /
             total_length (add_lines (LineProcessor_init HistoricalLaneDataTracker_init)
                [(0, 0, 3, 4, 4 / 3), (3, 4, 3, 9, 1)]) \<and>
   sum_of_slopes (add_lines (LineProcessor_init HistoricalLaneDataTracker_init)
                [(0, 0, 3, 4, 4 / 3), (3, 4, 3, 9, 1)]) /
             total_length (add_lines (LineProcessor_init HistoricalLaneDataTracker_init)
                [(0, 0, 3, 4, 4 / 3), (3, 4, 3, 9, 1)]) \<le> 4 / 3"
proof -
  have h1: "[(0, 0, 3, 4, 4 / 3), (3, 4, 3, 9, 1)] \<noteq>
            ([] :: (real \<times> real \<times> real \<times> real \<times> real) list)"
    by simp
  have h2: "\<forall>c\<in>set [(0, 0, 3, 4, 4 / 3), (3, 4, 3, 9, 1)]. 0 < seg_len c"
    by (simp add: seg_len_def sqrt_25)
  have m: "Min (seg_slope ` set [(0, 0, 3, 4, 4 / 3), (3, 4, 3, 9, 1)]) = 1"
    "Max (seg_slope ` set [(0, 0, 3, 4, 4 / 3), (3, 4, 3, 9, 1)]) = 4 / 3"
    by (simp_all add: seg_slope_def)
  from C8_weighted_mean_slope_bounds [OF h1 h2, of HistoricalLaneDataTracker_init]
  show ?thesis
    unfolding m by blast
qed


text \<open>
  C9, as stated, on a processor that holds one segment, (0, 0, 3, 4), over a history of
  one entry: each call of \<open>get_mean_line\<close> pushes the aggregate again, so the history
  differs between the two calls and so do the lines, bottom_x 9 and then 8.
\<close>

theorem C9_second_call_counterexample:
  "snd (get_mean_line
         (add_line (LineProcessor_init (update HistoricalLaneDataTracker_init 2 (3 / 2) (3 / 4)))
            0 0 3 4 (slope 0 0 3 4)) 10 0) = Inr (9, 10, 0, 0) \<and>
   snd (get_mean_line
         (fst (get_mean_line
            (add_line (LineProcessor_init (update HistoricalLaneDataTracker_init 2 (3 / 2) (3 / 4)))
               0 0 3 4 (slope 0 0 3 4)) 10 0)) 10 0) = Inr (8, 10, 0, 0)"
  by (simp add: model_defs sqrt_25)

text \<open>
  C9 (amended). When the accumulator holds no segment (\<open>total_length = 0\<close>),
  \<open>get_mean_line\<close> leaves the processor and its history unchanged, and calling it twice
  in succession with the same bounds gives the same result both times, the same line
  or the same exception.
\<close>

theorem C9_reconstruction_repeatable:
  assumes "total_length lp = 0"
  shows "fst (get_mean_line lp bottom_y top_y) = lp \<and>
         get_mean_line (fst (get_mean_line lp bottom_y top_y)) bottom_y top_y =
           get_mean_line lp bottom_y top_y"
proof -
  have "fst (get_mean_line lp bottom_y top_y) = lp"
    by (simp add: get_mean_line_no_segments [OF assms] split: sum.splits prod.splits)
  then show ?thesis by simp
qed

theorem C9_reconstruction_repeatable_witness:
  "snd (get_mean_line (LineProcessor_init (update HistoricalLaneDataTracker_init 2 (3 / 2) (3 / 4)))
          10 0) = Inr (13, 10, 0, 0) \<and>
   snd (get_mean_line
          (fst (get_mean_line
             (LineProcessor_init (update HistoricalLaneDataTracker_init 2 (3 / 2) (3 / 4))) 10 0))
          10 0) = Inr (13, 10, 0, 0)"
proof -
  have z: "total_length
             (LineProcessor_init (update HistoricalLaneDataTracker_init 2 (3 / 2) (3 / 4))) = 0"
    by (simp add: LineProcessor_init_def)
  have v: "snd (get_mean_line
             (LineProcessor_init (update HistoricalLaneDataTracker_init 2 (3 / 2) (3 / 4)))
             10 0) = Inr (13, 10, 0, 0)"
    by (simp add: model_defs)
  show ?thesis
    using C9_reconstruction_repeatable [OF z, of 10 0] v by simp
qed

text \<open>
  C10. In every state the two global trackers can reach through \<open>draw_lines\<close>, every
  slope stored in the left tracker is negative. For any frame, the slopes of the left
  tracker after the left processor's \<open>get_mean_line\<close> are negative, the mean slope it
  reads is negative, and the call does not end in a division by zero. A segment of
  negative slope has positive length. The right lane has no such guarantee: one
  horizontal segment (0, 0, 10, 0) on a fresh history makes \<open>get_mean_line\<close> divide by
  zero.
\<close>

theorem C10_left_lane_slope_never_zero:
  assumes "reachable globals"
  shows "(\<forall>v\<in>set (slopes (fst globals)). v < 0) \<and>
         (\<forall>v\<in>set (slopes (lane_data_tracker
              (fst (get_mean_line (fst (line_processors globals lines)) bottom_y top_y)))). v < 0) \<and>
         (\<forall>x y s. get_latest_lane_data (lane_data_tracker
              (fst (get_mean_line (fst (line_processors globals lines)) bottom_y top_y))) =
              Inr (x, y, s) \<longrightarrow> s < 0) \<and>
         snd (get_mean_line (fst (line_processors globals lines)) bottom_y top_y) \<noteq>
           Inl ZeroDivisionError \<and>
         (slope x1 y1 x2 y2 < 0 \<longrightarrow> 0 < line_length x1 y1 x2 y2) \<and>
         snd (get_mean_line (add_line (LineProcessor_init HistoricalLaneDataTracker_init)
                0 0 10 0 (slope 0 0 10 0)) 539 325) = Inl ZeroDivisionError"
proof -
  let ?p = "fst (line_processors globals lines)"
  let ?t = "lane_data_tracker (fst (get_mean_line ?p bottom_y top_y))"
  have a: "\<forall>v\<in>set (slopes (fst globals)). v < 0"
    using assms by (rule reachable_left_negative)
  have b: "\<forall>v\<in>set (slopes ?t). v < 0"
    using left_processor [of globals lines] a by (intro left_tracker_after) simp_all
  have c: "s < 0" if "get_latest_lane_data ?t = Inr (x, y, s)" for x y s
  proof -
    from that have "statistics_mean (slopes ?t) = Inr s"
      by (auto simp: get_latest_lane_data_def split: sum.splits)
    then show ?thesis using b by (rule statistics_mean_negative)
  qed
  have d: "snd (get_mean_line ?p bottom_y top_y) \<noteq> Inl ZeroDivisionError"
  proof
    assume e: "snd (get_mean_line ?p bottom_y top_y) = Inl ZeroDivisionError"
    have "\<exists>x y. get_latest_lane_data ?t = Inr (x, y, 0)"
      using e
      by (auto simp: get_mean_line_def Let_def find_x2_from_slope_def get_latest_lane_data_def
          statistics_mean_def split: sum.splits prod.splits if_splits)
    then show False using c by force
  qed
  have f: "snd (get_mean_line (add_line (LineProcessor_init HistoricalLaneDataTracker_init)
                0 0 10 0 (slope 0 0 10 0)) 539 325) = Inl ZeroDivisionError"
    by (simp add: model_defs)
  show ?thesis
    using a b c d f negative_slope_positive_length by blast
qed

text \<open>
  After a first frame with one left and one right segment the left history is the single
  entry (5, 95, -1); a second frame with no left segment reads it.
\<close>

theorem C10_left_lane_slope_never_zero_witness:
  "slopes (fst (fst (draw_lines (HistoricalLaneDataTracker_init, HistoricalLaneDataTracker_init)
       [[(0, 100, 10, 90), (100, 100, 110, 110)]]
       [[(50, 539), (440, 325), (510, 325), (910, 539)]]))) = [- 1] \<and>
   snd (get_mean_line (fst (line_processors
       (fst (draw_lines (HistoricalLaneDataTracker_init, HistoricalLaneDataTracker_init)
          [[(0, 100, 10, 90), (100, 100, 110, 110)]]
          [[(50, 539), (440, 325), (510, 325), (910, 539)]]))
       [[(100, 100, 110, 110)]])) 539 325) = Inr (- 439, 539, - 225, 325) \<and>
   slope 0 100 10 90 < 0 \<and> 0 < line_length 0 100 10 90"
proof -
  let ?g = "fst (draw_lines (HistoricalLaneDataTracker_init, HistoricalLaneDataTracker_init)
       [[(0, 100, 10, 90), (100, 100, 110, 110)]]
       [[(50, 539), (440, 325), (510, 325), (910, 539)]])"
  have r: "reachable ?g" by (intro reachable_frame reachable_init)
  have g: "fst ?g = update HistoricalLaneDataTracker_init 5 95 (- 1)"
    by (simp add: draw_lines_def line_processors_def draw_lines_body_def area_y_def index_def
        model_defs)
  have v: "snd (get_mean_line (fst (line_processors ?g [[(100, 100, 110, 110)]])) 539 325) =
           Inr (- 439, 539, - 225, 325)"
  proof -
    have "fst (line_processors ?g [[(100, 100, 110, 110)]]) =
          LineProcessor_init (update HistoricalLaneDataTracker_init 5 95 (- 1))"
      by (simp add: line_processors_def draw_lines_body_def slope_def g)
    then show ?thesis by (simp add: model_defs)
  qed
  have s: "slope 0 100 10 90 < 0" by (simp add: slope_def)
  have a: "slopes (fst ?g) = [- 1]"
    unfolding g by (simp add: update_def HistoricalLaneDataTracker_init_def Let_def)
  have l: "0 < line_length 0 100 10 90"
    using C10_left_lane_slope_never_zero [OF r, of "[[(100, 100, 110, 110)]]" 539 325 0 100 10 90] s
    by blast
  show ?thesis
    using a v s l by (intro conjI)
qed

end
